theory Spec2Isabelle
  imports Complex_Main
begin

section \<open>Python values\<close>

text \<open>
  The engine (\<^verbatim>\<open>swing_score_engine.py\<close>) computes on Python and numpy floats. Prices and
  indicator values are modelled as exact reals: rounding of binary floating point is not
  modelled. What is modelled is the part of IEEE arithmetic the control flow can see:
  numpy's division by zero does not raise, it yields an infinity or NaN, and every
  comparison with NaN is false. The sign of a zero divisor is not modelled.
\<close>

datatype fnum = Fin real | PosInf | NegInf | NaN

definition fdiv :: "real \<Rightarrow> real \<Rightarrow> fnum" where
  "fdiv a b =
     (if b = 0 then (if a > 0 then PosInf else if a < 0 then NegInf else NaN)
      else Fin (a / b))"

text \<open>Multiplication by the positive constant 100 (\<^verbatim>\<open>(...) * 100\<close>).\<close>

fun times100 :: "fnum \<Rightarrow> fnum" where
  "times100 (Fin x) = Fin (x * 100)"
| "times100 PosInf = PosInf"
| "times100 NegInf = NegInf"
| "times100 NaN = NaN"

fun f_less :: "fnum \<Rightarrow> fnum \<Rightarrow> bool" where
  "f_less (Fin x) (Fin y) = (x < y)"
| "f_less NegInf (Fin y) = True"
| "f_less NegInf PosInf = True"
| "f_less (Fin x) PosInf = True"
| "f_less _ _ = False"

fun f_le :: "fnum \<Rightarrow> fnum \<Rightarrow> bool" where
  "f_le (Fin x) (Fin y) = (x \<le> y)"
| "f_le (Fin x) PosInf = True"
| "f_le (Fin x) NegInf = False"
| "f_le (Fin x) NaN = False"
| "f_le NegInf NaN = False"
| "f_le NegInf _ = True"
| "f_le PosInf PosInf = True"
| "f_le PosInf _ = False"
| "f_le NaN _ = False"

fun f_abs :: "fnum \<Rightarrow> fnum" where
  "f_abs (Fin x) = Fin \<bar>x\<bar>"
| "f_abs PosInf = PosInf"
| "f_abs NegInf = PosInf"
| "f_abs NaN = NaN"

text \<open>
  \<^verbatim>\<open>round(x, 1)\<close>: one decimal place, ties to the even neighbour; infinities and NaN
  are returned unchanged.
\<close>

definition round_half_even :: "real \<Rightarrow> int" where
  "round_half_even y =
     (let f = \<lfloor>y\<rfloor>; d = y - of_int f
      in if d < 1 / 2 then f else if d > 1 / 2 then f + 1 else if even f then f else f + 1)"

fun round1 :: "fnum \<Rightarrow> fnum" where
  "round1 (Fin x) = Fin (of_int (round_half_even (x * 10)) / 10)"
| "round1 v = v"

text \<open>
  A Python value as the result dictionaries hold it. An f-string whose fields are numbers
  is kept as its template and the values formatted into it (\<open>PFmt\<close>): the digits the
  format specification prints are not modelled. The pictographs that start some of the
  source's messages are left out of the templates.
\<close>

datatype pyval =
    PNone
  | PBool bool
  | PInt int
  | PFloat fnum
  | PStr string
  | PFmt string "pyval list"
  | PDict "(string \<times> pyval) list"

type_synonym pydict = "(string \<times> pyval) list"

text \<open>
  A dictionary is the list of its items in insertion order; every dictionary below is
  built with pairwise distinct keys, and \<open>map_of\<close> is the lookup.
\<close>

section \<open>Exceptions, frames and the indicator library\<close>

datatype error =
    IndexError
  | TypeError
  | LibraryError string
  | FetchError string

fun str_of :: "error \<Rightarrow> string" where
  "str_of IndexError = ''single positional indexer is out-of-bounds''"
| "str_of TypeError = ''unsupported format string passed to NoneType.__format__''"
| "str_of (LibraryError m) = m"
| "str_of (FetchError m) = m"

text \<open>\<open>iloc xs k\<close> is \<^verbatim>\<open>xs.iloc[-k]\<close> for \<open>k \<ge> 1\<close>; out of range raises IndexError.\<close>

definition iloc :: "'a list \<Rightarrow> nat \<Rightarrow> error + 'a" where
  "iloc xs k = (if 1 \<le> k \<and> k \<le> length xs then Inr (xs ! (length xs - k)) else Inl IndexError)"

text \<open>One row of a fetched DataFrame (\<^verbatim>\<open>fetch_bars_rest\<close>); a frame is the list of its rows.\<close>

record bar =
  timestamp :: int
  open' :: real
  high :: real
  low :: real
  close :: real
  volume :: int

text \<open>
  A cell read from an indicator column: Python's None (pandas_ta returns None for a
  series shorter than the window, and the column is then filled with it), a float NaN
  (inside the warm-up of the window), or a number. \<^verbatim>\<open>pd.isna\<close> is true of the first two,
  so a test \<^verbatim>\<open>not pd.isna(x)\<close> is the case \<open>CVal\<close> of a case distinction.
\<close>

datatype cell = CNone | CNaN | CVal real

text \<open>
  pandas_ta is not part of the repository, so the indicator library is a parameter. Each
  field stands for the call \<^verbatim>\<open>ta.f(series, length=n)\<close> stored as a column and read at
  \<^verbatim>\<open>.iloc[-1]\<close>: it raises, or yields the cell of the last row.
\<close>

record ta =
  sma :: "real list \<Rightarrow> nat \<Rightarrow> error + cell"
  ema :: "real list \<Rightarrow> nat \<Rightarrow> error + cell"
  rsi :: "real list \<Rightarrow> nat \<Rightarrow> error + cell"
  atr :: "real list \<Rightarrow> real list \<Rightarrow> real list \<Rightarrow> nat \<Rightarrow> error + cell"

text \<open>The two-key dictionary \<^verbatim>\<open>{'score': ..., 'details': ...}\<close> a factor returns.\<close>

record factor_result =
  score :: int
  details :: pydict

section \<open>Technical factor: \<^verbatim>\<open>calculate_technicals\<close>\<close>

text \<open>
  Lines 137-152, the trend filter: the base score, \<^verbatim>\<open>max_score_cap\<close> and the detail
  entries it writes.
\<close>

definition trend_filter :: "real \<Rightarrow> cell \<Rightarrow> int \<times> int \<times> pydict" where
  "trend_filter current_price sma_200 =
     (case sma_200 of
        CVal s \<Rightarrow>
          if current_price > s
          then (50, 100,
                [(''trend_filter'',
                    PFmt ''[OK] UPTREND: ${:.2f} > 200 SMA ${:.2f} (Base +50)''
                      [PFloat (Fin current_price), PFloat (Fin s)]),
                 (''in_uptrend'', PBool True)])
          else (0, 40,
                [(''trend_filter'',
                    PFmt ''DOWNTREND: ${:.2f} < 200 SMA ${:.2f} (Capped at 40)''
                      [PFloat (Fin current_price), PFloat (Fin s)]),
                 (''in_uptrend'', PBool False)])
      | _ \<Rightarrow>
          (25, 100,
           [(''trend_filter'', PStr ''Insufficient data (need 200 days)''),
            (''in_uptrend'', PNone)]))"

text \<open>Lines 157-179, the RSI dip bonus.\<close>

definition rsi_dip_bonus :: "cell \<Rightarrow> int \<times> pydict" where
  "rsi_dip_bonus rsi_cell =
     (case rsi_cell of
        CVal r \<Rightarrow>
          if r > 70 then
            (-20, [(''rsi_signal'', PFmt ''OVERBOUGHT: RSI {:.1f} > 70 (-20)'' [PFloat (Fin r)]),
                   (''rsi_score'', PInt (-20))])
          else if 50 \<le> r \<and> r \<le> 70 then
            (10, [(''rsi_signal'', PFmt ''MOMENTUM: RSI {:.1f} in 50-70 (+10)'' [PFloat (Fin r)]),
                  (''rsi_score'', PInt 10)])
          else if 30 \<le> r \<and> r < 50 then
            (30, [(''rsi_signal'', PFmt ''SWEET SPOT: RSI {:.1f} in 30-50 (+30)'' [PFloat (Fin r)]),
                  (''rsi_score'', PInt 30)])
          else
            (10, [(''rsi_signal'', PFmt ''OVERSOLD: RSI {:.1f} < 30 (+10)'' [PFloat (Fin r)]),
                  (''rsi_score'', PInt 10)])
      | _ \<Rightarrow> (0, [(''rsi_signal'', PStr ''RSI unavailable''), (''rsi_score'', PInt 0)]))"

text \<open>Lines 184-210, the EMA proximity bonus.\<close>

definition ema_proximity :: "real \<Rightarrow> cell \<Rightarrow> int \<times> pydict" where
  "ema_proximity current_price ema_cell =
     (case ema_cell of
        CVal e \<Rightarrow>
          (let ema_distance_pct = times100 (fdiv (current_price - e) e) in
           if f_le (f_abs ema_distance_pct) (Fin 2) then
             (20, [(''ema_signal'',
                      PFmt ''NEAR SUPPORT: {:+.1f}% from 20 EMA (+20)'' [PFloat ema_distance_pct]),
                   (''ema_distance_pct'', PFloat ema_distance_pct),
                   (''ema_score'', PInt 20)])
           else if f_less (Fin 10) ema_distance_pct then
             (-10, [(''ema_signal'',
                       PFmt ''EXTENDED: {:+.1f}% above 20 EMA (-10)'' [PFloat ema_distance_pct]),
                    (''ema_distance_pct'', PFloat ema_distance_pct),
                    (''ema_score'', PInt (-10))])
           else if f_less ema_distance_pct (Fin (-10)) then
             (-10, [(''ema_signal'',
                       PFmt ''FALLING: {:+.1f}% below 20 EMA (-10)'' [PFloat ema_distance_pct]),
                    (''ema_distance_pct'', PFloat ema_distance_pct),
                    (''ema_score'', PInt (-10))])
           else
             (0, [(''ema_signal'',
                     PFmt ''MODERATE: {:+.1f}% from 20 EMA (0)'' [PFloat ema_distance_pct]),
                  (''ema_distance_pct'', PFloat ema_distance_pct),
                  (''ema_score'', PInt 0)]))
      | _ \<Rightarrow> (0, [(''ema_signal'', PStr ''20 EMA unavailable''), (''ema_score'', PInt 0)]))"

fun cell_or_none :: "cell \<Rightarrow> pyval" where
  "cell_or_none (CVal v) = PFloat (Fin v)"
| "cell_or_none _ = PNone"

text \<open>
  The body of the \<^verbatim>\<open>try\<close> block. Every statement that can raise (the three indicator
  calls and the read of the last close of an empty frame) comes before the first write to
  \<^verbatim>\<open>details\<close>. The columns the source adds to the caller's frame are never read by later
  code other than through the same indicator calls, so the frame is not threaded through.
\<close>

definition calculate_technicals_try :: "ta \<Rightarrow> bar list \<Rightarrow> error + factor_result" where
  "calculate_technicals_try lib df =
     (let closes = map close df in
      case sma lib closes 200 of Inl e \<Rightarrow> Inl e | Inr sma_200 \<Rightarrow>
     (case ema lib closes 20 of Inl e \<Rightarrow> Inl e | Inr ema_20 \<Rightarrow>
     (case rsi lib closes 14 of Inl e \<Rightarrow> Inl e | Inr rsi_14 \<Rightarrow>
     (case iloc closes 1 of Inl e \<Rightarrow> Inl e | Inr current_price \<Rightarrow>
        (let raw_values =
               [(''raw_values'',
                   PDict [(''price'', PFloat (Fin current_price)),
                          (''sma_200'', cell_or_none sma_200),
                          (''ema_20'', cell_or_none ema_20),
                          (''rsi'', cell_or_none rsi_14)])];
             (base, max_score_cap, d_trend) = trend_filter current_price sma_200;
             (rsi_score, d_rsi) = rsi_dip_bonus rsi_14;
             (ema_score, d_ema) = ema_proximity current_price ema_20;
             final_score = max 0 (min (base + rsi_score + ema_score) max_score_cap);
             d_cap =
               (if max_score_cap < 100
                then [(''cap_applied'',
                         PFmt ''Score capped at {} (downtrend protection)'' [PInt max_score_cap])]
                else []);
             d_score =
               [(''trend_score'',
                   PInt (if map_of d_trend ''in_uptrend'' = Some (PBool True) then 50 else 0))]
         in Inr \<lparr>score = final_score,
                 details = raw_values @ d_trend @ d_rsi @ d_ema @ d_cap @ d_score\<rparr>)))))"

text \<open>The \<^verbatim>\<open>except Exception\<close> handler: score 0 and the message under \<^verbatim>\<open>error\<close>.\<close>

definition calculate_technicals :: "ta \<Rightarrow> bar list \<Rightarrow> factor_result" where
  "calculate_technicals lib df =
     (case calculate_technicals_try lib df of
        Inl e \<Rightarrow> \<lparr>score = 0, details = [(''error'', PStr (str_of e))]\<rparr>
      | Inr r \<Rightarrow> r)"

section \<open>Market regime: \<^verbatim>\<open>calculate_market_regime\<close>\<close>

text \<open>
  The body of the \<^verbatim>\<open>try\<close> block. The frame of the volatility index is optional
  (\<^verbatim>\<open>vix_df=None\<close>). When the 50-period SMA cell is Python's None, the "Bear" message
  formats None with \<^verbatim>\<open>:.2f\<close>, which raises TypeError; a NaN formats without error. Every
  statement that can raise runs while \<^verbatim>\<open>score\<close> is still 0.
\<close>

definition calculate_market_regime_try ::
  "ta \<Rightarrow> bar list \<Rightarrow> bar list option \<Rightarrow> error + factor_result" where
  "calculate_market_regime_try lib spy_df vix_df =
     (let closes = map close spy_df in
      case sma lib closes 50 of Inl e \<Rightarrow> Inl e | Inr spy_sma_50 \<Rightarrow>
     (case iloc closes 1 of Inl e \<Rightarrow> Inl e | Inr spy_current \<Rightarrow>
     (case (case spy_sma_50 of
              CVal s \<Rightarrow>
                if spy_current > s
                then Inr (15, [(''spy_trend'',
                                  PFmt ''Bull: ${:.2f} > ${:.2f} (+15)''
                                    [PFloat (Fin spy_current), PFloat (Fin s)])])
                else Inr (0, [(''spy_trend'',
                                 PFmt ''Bear: ${:.2f} < ${:.2f} (0)''
                                   [PFloat (Fin spy_current), PFloat (Fin s)])])
            | CNaN \<Rightarrow>
                Inr (0, [(''spy_trend'',
                            PFmt ''Bear: ${:.2f} < ${:.2f} (0)''
                              [PFloat (Fin spy_current), PFloat NaN])])
            | CNone \<Rightarrow> Inl TypeError)
      of Inl e \<Rightarrow> Inl e | Inr (trend_score, d_spy) \<Rightarrow>
        (let (vix_score, d_vix) =
               (case vix_df of
                  None \<Rightarrow> (0, [(''vix'', PStr ''Not available (assuming neutral)'')])
                | Some vix \<Rightarrow>
                    if length vix > 0 then
                      (let vix_current = close (last vix) in
                       if vix_current < 20 then
                         (15, [(''vix'', PFmt ''{:.1f} (Low Fear, +15)'' [PFloat (Fin vix_current)])])
                       else if vix_current > 30 then
                         (-20, [(''vix'', PFmt ''{:.1f} (HIGH FEAR, -20)'' [PFloat (Fin vix_current)])])
                       else
                         (0, [(''vix'', PFmt ''{:.1f} (Elevated, 0)'' [PFloat (Fin vix_current)])]))
                    else (0, [(''vix'', PStr ''Not available (assuming neutral)'')]));
             score' = trend_score + vix_score
         in Inr \<lparr>score = max 0 score',
                 details = d_spy @ d_vix @ [(''regime_score'', PInt (max 0 score'))]\<rparr>))))"

definition calculate_market_regime :: "ta \<Rightarrow> bar list \<Rightarrow> bar list option \<Rightarrow> factor_result" where
  "calculate_market_regime lib spy_df vix_df =
     (case calculate_market_regime_try lib spy_df vix_df of
        Inl e \<Rightarrow> \<lparr>score = max 0 0, details = [(''error'', PStr (str_of e))]\<rparr>
      | Inr r \<Rightarrow> r)"

section \<open>Relative strength: \<^verbatim>\<open>calculate_relative_strength\<close>\<close>

text \<open>
  The 5-bar trailing return in percent, \<^verbatim>\<open>((c.iloc[-1] - c.iloc[-6]) / c.iloc[-6]) * 100\<close>;
  a series of fewer than six bars raises IndexError.
\<close>

definition five_day_return :: "real list \<Rightarrow> error + fnum" where
  "five_day_return closes =
     (case iloc closes 1 of Inl e \<Rightarrow> Inl e | Inr c1 \<Rightarrow>
     (case iloc closes 6 of Inl e \<Rightarrow> Inl e | Inr c6 \<Rightarrow>
        Inr (times100 (fdiv (c1 - c6) c6))))"

text \<open>
  The body of the \<^verbatim>\<open>try\<close> block; the result is the tuple
  \<^verbatim>\<open>(score, details, kill_switch)\<close>. Both returns are computed before \<^verbatim>\<open>details\<close> is
  written.
\<close>

definition calculate_relative_strength_try ::
  "bar list \<Rightarrow> bar list \<Rightarrow> error + (int \<times> pydict \<times> bool)" where
  "calculate_relative_strength_try stock_df spy_df =
     (case five_day_return (map close stock_df) of Inl e \<Rightarrow> Inl e | Inr stock_return \<Rightarrow>
     (case five_day_return (map close spy_df) of Inl e \<Rightarrow> Inl e | Inr spy_return \<Rightarrow>
        (let d_returns =
               [(''stock_5d_return'', PFmt ''{:+.2f}%'' [PFloat stock_return]),
                (''spy_5d_return'', PFmt ''{:+.2f}%'' [PFloat spy_return])]
         in if f_less stock_return (Fin 0) \<and> f_less (Fin 0) spy_return then
              Inr (0, d_returns @ [(''status'', PStr ''[ALERT] RELATIVE WEAKNESS (Auto-Fail)'')], True)
            else if f_less spy_return stock_return then
              Inr (20, d_returns @ [(''status'', PStr ''Leader (+20)'')], False)
            else
              Inr (0, d_returns @ [(''status'', PStr ''Laggard (0)'')], False))))"

definition calculate_relative_strength :: "bar list \<Rightarrow> bar list \<Rightarrow> int \<times> pydict \<times> bool" where
  "calculate_relative_strength stock_df spy_df =
     (case calculate_relative_strength_try stock_df spy_df of
        Inl e \<Rightarrow> (0, [(''error'', PStr (str_of e))], False)
      | Inr r \<Rightarrow> r)"

section \<open>Trade setup: \<^verbatim>\<open>calculate_trade_setup\<close>\<close>

text \<open>Lines 348-354, the entry zone around the 20-period EMA (around the price without it).\<close>

definition entry_zone :: "real \<Rightarrow> cell \<Rightarrow> real \<times> real" where
  "entry_zone current_price ema_20 =
     (case ema_20 of
        CVal e \<Rightarrow> (e * 0.98, e * 1.02)
      | _ \<Rightarrow> (current_price * 0.98, current_price * 1.02))"

text \<open>Lines 356-362, the stop loss.\<close>

definition stop_loss :: "real \<Rightarrow> cell \<Rightarrow> real" where
  "stop_loss current_price sma_200 =
     (case sma_200 of
        CVal s \<Rightarrow> (let sma_stop = s * 0.99; pct_stop = current_price * 0.92 in max sma_stop pct_stop)
      | _ \<Rightarrow> current_price * 0.92)"

text \<open>Lines 367-375, target A: +4%, or just below a 50-period SMA that is nearer.\<close>

definition base_hit_target :: "real \<Rightarrow> cell \<Rightarrow> real" where
  "base_hit_target current_price sma_50 =
     (case sma_50 of
        CVal s \<Rightarrow>
          if s > current_price \<and> f_less (fdiv (s - current_price) current_price) (Fin 0.04)
          then s * 0.995
          else current_price * 1.04
      | _ \<Rightarrow> current_price * 1.04)"

text \<open>Lines 384-388, whether the ATR supports the +10% move.\<close>

definition atr_supports :: "real \<Rightarrow> real \<Rightarrow> cell \<Rightarrow> bool" where
  "atr_supports target_aggro current_price atr_14 =
     (case atr_14 of
        CVal a \<Rightarrow> \<not> f_less (Fin 5) (fdiv (target_aggro - current_price) a)
      | _ \<Rightarrow> True)"

text \<open>Lines 396-406, the probability estimates \<^verbatim>\<open>(prob_safe, prob_aggro)\<close>.\<close>

definition win_probabilities :: "real \<Rightarrow> cell \<Rightarrow> bool \<Rightarrow> int \<times> int" where
  "win_probabilities current_price sma_200 volatility_supported =
     (let (prob_safe, prob_aggro) =
            (case sma_200 of
               CVal s \<Rightarrow>
                 if current_price > s then (min 85 (75 + 10), min 55 (40 + 10)) else (75, 40)
             | _ \<Rightarrow> (75, 40))
      in (prob_safe, if \<not> volatility_supported then max 20 (prob_aggro - 15) else prob_aggro))"

definition calculate_trade_setup_try :: "ta \<Rightarrow> bar list \<Rightarrow> error + pydict" where
  "calculate_trade_setup_try lib df =
     (let closes = map close df in
      case ema lib closes 20 of Inl e \<Rightarrow> Inl e | Inr ema_20 \<Rightarrow>
     (case sma lib closes 50 of Inl e \<Rightarrow> Inl e | Inr sma_50 \<Rightarrow>
     (case sma lib closes 200 of Inl e \<Rightarrow> Inl e | Inr sma_200 \<Rightarrow>
     (case atr lib (map high df) (map low df) closes 14 of Inl e \<Rightarrow> Inl e | Inr atr_14 \<Rightarrow>
     (case iloc closes 1 of Inl e \<Rightarrow> Inl e | Inr current_price \<Rightarrow>
        (let (buy_min, buy_max) = entry_zone current_price ema_20;
             sell_stop = stop_loss current_price sma_200;
             target_safe = base_hit_target current_price sma_50;
             target_safe_pct = times100 (fdiv (target_safe - current_price) current_price);
             target_aggro = current_price * 1.10;
             volatility_supported = atr_supports target_aggro current_price atr_14;
             target_aggro_pct = times100 (fdiv (target_aggro - current_price) current_price);
             (prob_safe, prob_aggro) = win_probabilities current_price sma_200 volatility_supported
         in Inr [(''buy_min'', PFloat (Fin buy_min)),
                 (''buy_max'', PFloat (Fin buy_max)),
                 (''sell_stop'', PFloat (Fin sell_stop)),
                 (''target_safe'', PFloat (Fin target_safe)),
                 (''target_safe_pct'', PFloat (round1 target_safe_pct)),
                 (''target_aggro'', PFloat (Fin target_aggro)),
                 (''target_aggro_pct'', PFloat (round1 target_aggro_pct)),
                 (''prob_safe'', PInt prob_safe),
                 (''prob_aggro'', PInt prob_aggro),
                 (''volatility_supported'', PBool volatility_supported),
                 (''recommended'', PStr ''safe'')]))))))"

text \<open>The dictionary of the \<^verbatim>\<open>except Exception\<close> handler (lines 425-439).\<close>

definition default_trade_setup :: "error \<Rightarrow> pydict" where
  "default_trade_setup e =
     [(''buy_min'', PInt 0),
      (''buy_max'', PInt 0),
      (''sell_stop'', PInt 0),
      (''target_safe'', PInt 0),
      (''target_safe_pct'', PFloat (Fin 4.0)),
      (''target_aggro'', PInt 0),
      (''target_aggro_pct'', PFloat (Fin 10.0)),
      (''prob_safe'', PInt 75),
      (''prob_aggro'', PInt 40),
      (''volatility_supported'', PBool True),
      (''recommended'', PStr ''safe''),
      (''error'', PStr (str_of e))]"

definition calculate_trade_setup :: "ta \<Rightarrow> bar list \<Rightarrow> pydict" where
  "calculate_trade_setup lib df =
     (case calculate_trade_setup_try lib df of
        Inl e \<Rightarrow> default_trade_setup e
      | Inr r \<Rightarrow> r)"

section \<open>Verdict and aggregation: \<^verbatim>\<open>_get_verdict\<close>, \<^verbatim>\<open>calculate_score\<close>\<close>

definition get_verdict :: "int \<Rightarrow> bool \<Rightarrow> string" where
  "get_verdict score' kill_switch =
     (if kill_switch then ''AVOID (Rel. Weakness)''
      else if score' \<ge> 80 then ''STRONG BUY''
      else if score' \<ge> 60 then ''BUY''
      else if score' \<ge> 40 then ''HOLD''
      else ''AVOID'')"

definition score_failed :: "error \<Rightarrow> pydict" where
  "score_failed e = [(''error'', PStr (''Score calculation failed: '' @ str_of e))]"

text \<open>
  \<open>fetch symbol\<close> stands for \<^verbatim>\<open>self.fetch_bars_rest(symbol, end_date=end_date)\<close>, the REST
  call to the market-data provider: it raises, or returns the frame of the symbol. A
  failed fetch of the ticker or of SPY leaves through the outer handler; a failed fetch
  of VIX is caught where it is made. The last expression evaluated for either result
  dictionary is \<^verbatim>\<open>float(stock_df['close'].iloc[-1])\<close>, which raises on an empty frame.
\<close>

definition calculate_score :: "ta \<Rightarrow> (string \<Rightarrow> error + bar list) \<Rightarrow> string \<Rightarrow> pydict" where
  "calculate_score lib fetch ticker =
     (case fetch ticker of Inl e \<Rightarrow> score_failed e | Inr stock_df \<Rightarrow>
     (case fetch ''SPY'' of Inl e \<Rightarrow> score_failed e | Inr spy_df \<Rightarrow>
        (let vix_df = (case fetch ''VIX'' of Inl e \<Rightarrow> None | Inr v \<Rightarrow> Some v);
             tech_result = calculate_technicals lib stock_df;
             regime_result = calculate_market_regime lib spy_df vix_df;
             (rel_score, rel_details, kill_switch) = calculate_relative_strength stock_df spy_df
         in if kill_switch then
              (case iloc (map close stock_df) 1 of Inl e \<Rightarrow> score_failed e | Inr current_price \<Rightarrow>
                 [(''ticker'', PStr ticker),
                  (''score'', PInt 0),
                  (''verdict'', PStr (get_verdict 0 True)),
                  (''reason'', PStr ''RELATIVE WEAKNESS KILL SWITCH''),
                  (''breakdown'',
                     PDict [(''technicals'', PInt (score tech_result)),
                            (''market_regime'', PInt (score regime_result)),
                            (''relative_strength'', PInt 0),
                            (''details'',
                               PDict [(''technicals'', PDict (details tech_result)),
                                      (''market_regime'', PDict (details regime_result)),
                                      (''relative_strength'', PDict rel_details)])]),
                  (''current_price'', PFloat (Fin current_price))])
            else
              (let final_score = score tech_result + score regime_result + rel_score;
                   verdict = get_verdict final_score False;
                   trade_setup = calculate_trade_setup lib stock_df
               in case iloc (map close stock_df) 1 of Inl e \<Rightarrow> score_failed e | Inr current_price \<Rightarrow>
                    [(''ticker'', PStr ticker),
                     (''score'', PInt final_score),
                     (''verdict'', PStr verdict),
                     (''breakdown'',
                        PDict [(''technicals'', PInt (score tech_result)),
                               (''market_regime'', PInt (score regime_result)),
                               (''relative_strength'', PInt rel_score),
                               (''details'',
                                  PDict [(''technicals'', PDict (details tech_result)),
                                         (''market_regime'', PDict (details regime_result)),
                                         (''relative_strength'', PDict rel_details)])]),
                     (''current_price'', PFloat (Fin current_price)),
                     (''trade_setup'', PDict trade_setup)]))))"

section \<open>The calling layer: \<^verbatim>\<open>analyze_ticker\<close> in \<^verbatim>\<open>app_new.py\<close>\<close>

text \<open>
  Lines 205-208: \<^verbatim>\<open>sentiment_score\<close> is an integer (\<^verbatim>\<open>market_analyst.py\<close> clamps
  \<^verbatim>\<open>int(...)\<close> to -10..10), and Python's \<^verbatim>\<open>round\<close> rounds ties to even.
\<close>

definition ai_points :: "int \<Rightarrow> int" where
  "ai_points ai_sentiment_score =
     max 0 (min 10 (round_half_even (((of_int ai_sentiment_score + 10) / 20) * 10)))"

text \<open>Lines 219-221.\<close>

definition adjusted_score :: "int \<Rightarrow> int \<Rightarrow> int" where
  "adjusted_score score' ai_sentiment_score = min 100 (score' + ai_points ai_sentiment_score)"

text \<open>Lines 224-236.\<close>

definition analyze_verdict :: "bool \<Rightarrow> int \<Rightarrow> string" where
  "analyze_verdict kill_switch final_score =
     (if kill_switch then ''AVOID (Rel. Weakness)''
      else if final_score \<ge> 80 then ''STRONG BUY''
      else if final_score \<ge> 60 then ''BUY''
      else if final_score \<ge> 40 then ''HOLD''
      else if final_score \<ge> 20 then ''AVOID''
      else ''STRONG SELL'')"

text \<open>
  The score and verdict of the response, from the engine's result and the sentiment
  score; \<^verbatim>\<open>kill_switch = 'reason' in technical_result\<close>. \<open>None\<close> is the status-500
  response: the engine's result holds \<^verbatim>\<open>error\<close> (lines 164-165), or reading its
  \<^verbatim>\<open>score\<close> raises and the outer handler answers.
\<close>

definition analyze_ticker :: "pydict \<Rightarrow> int \<Rightarrow> (int \<times> string) option" where
  "analyze_ticker technical_result ai_sentiment_score =
     (if map_of technical_result ''error'' \<noteq> None then None
      else case map_of technical_result ''score'' of
          Some (PInt score') \<Rightarrow>
            (let final_score = adjusted_score score' ai_sentiment_score;
                 kill_switch = (map_of technical_result ''reason'' \<noteq> None)
             in Some (final_score, analyze_verdict kill_switch final_score))
        | _ \<Rightarrow> None)"

section \<open>Vocabulary of the statements\<close>

text \<open>
  The price the entry zone is centred on: the 20-period EMA, or the last close when the
  EMA is undefined (lines 349-354).
\<close>

definition entry_basis :: "real \<Rightarrow> cell \<Rightarrow> real" where
  "entry_basis current_price ema_20 = (case ema_20 of CVal e \<Rightarrow> e | _ \<Rightarrow> current_price)"

text \<open>The keys of a TradeSetup, as the docstring and both return statements list them.\<close>

definition trade_setup_keys :: "string list" where
  "trade_setup_keys =
     [''buy_min'', ''buy_max'', ''sell_stop'', ''target_safe'', ''target_safe_pct'',
      ''target_aggro'', ''target_aggro_pct'', ''prob_safe'', ''prob_aggro'',
      ''volatility_supported'', ''recommended'']"

text \<open>
  The \<^verbatim>\<open>breakdown\<close> entry that both return statements of \<^verbatim>\<open>calculate_score\<close> build
  (lines 512-521 and 538-547).
\<close>

definition breakdown :: "factor_result \<Rightarrow> factor_result \<Rightarrow> int \<Rightarrow> pydict \<Rightarrow> pyval" where
  "breakdown tech_result regime_result rel_score rel_details =
     PDict [(''technicals'', PInt (score tech_result)),
            (''market_regime'', PInt (score regime_result)),
            (''relative_strength'', PInt rel_score),
            (''details'',
               PDict [(''technicals'', PDict (details tech_result)),
                      (''market_regime'', PDict (details regime_result)),
                      (''relative_strength'', PDict rel_details)])]"

section \<open>Fixtures\<close>

text \<open>
  Concrete inputs for the closed theorems below. A frame is built from its closes, one
  bar per consecutive day with open, high and low equal to the close. \<open>table_ta\<close>
  stands in for pandas_ta: it answers from a table indexed by the series of closes and
  the window length, and yields None where the table has no entry, as pandas_ta does for
  a series shorter than the window. The SMA entries are the arithmetic means of the last
  \<open>n\<close> closes of the series; the EMA, RSI and ATR entries are values of the magnitude
  the series would give.
\<close>

fun bars_from :: "int \<Rightarrow> real list \<Rightarrow> bar list" where
  "bars_from t [] = []"
| "bars_from t (c # cs) =
     \<lparr>timestamp = t, open' = c, high = c, low = c, close = c, volume = 1000\<rparr> # bars_from (t + 1) cs"

definition table_ta ::
  "((real list \<times> nat) \<times> cell) list \<Rightarrow> ((real list \<times> nat) \<times> cell) list \<Rightarrow>
   ((real list \<times> nat) \<times> cell) list \<Rightarrow> ((real list \<times> nat) \<times> cell) list \<Rightarrow> ta" where
  "table_ta sma_tbl ema_tbl rsi_tbl atr_tbl =
     \<lparr>sma = (\<lambda>xs n. Inr (case map_of sma_tbl (xs, n) of Some c \<Rightarrow> c | None \<Rightarrow> CNone)),
      ema = (\<lambda>xs n. Inr (case map_of ema_tbl (xs, n) of Some c \<Rightarrow> c | None \<Rightarrow> CNone)),
      rsi = (\<lambda>xs n. Inr (case map_of rsi_tbl (xs, n) of Some c \<Rightarrow> c | None \<Rightarrow> CNone)),
      atr = (\<lambda>hs ls xs n. Inr (case map_of atr_tbl (xs, n) of Some c \<Rightarrow> c | None \<Rightarrow> CNone))\<rparr>"

text \<open>
  A ticker in an uptrend after a mild pullback: 150 days at 80, 44 days at 101, then a
  slide from 101 to 100.
\<close>

definition pullback_closes :: "real list" where
  "pullback_closes = replicate 150 80 @ replicate 44 101 @ [101, 100.8, 100.6, 100.4, 100.2, 100]"

text \<open>A ticker below its 200-day average: 150 days at 120, then 50 days around 100.\<close>

definition slump_closes :: "real list" where
  "slump_closes = replicate 150 120 @ replicate 44 100 @ [100, 100.2, 99.9, 100.1, 99.8, 100]"

text \<open>A ticker that closed at 50 on each of 200 days: its last close equals its SMA200.\<close>

definition flat_closes :: "real list" where
  "flat_closes = replicate 200 50"

text \<open>The market proxy above its 50-day average, down 1.96% over the last five bars.\<close>

definition spy_dip_closes :: "real list" where
  "spy_dip_closes = replicate 44 440 @ [459, 457, 455, 453, 451, 450]"

definition calm_vix_closes :: "real list" where
  "calm_vix_closes = [16, 15]"

text \<open>The market proxy up 1.35% over the last five bars.\<close>

definition spy_rise_closes :: "real list" where
  "spy_rise_closes = replicate 44 440 @ [445, 446, 447, 448, 449, 451]"

text \<open>The market proxy below its 50-day average, down 1.61% over the last five bars.\<close>

definition spy_bear_closes :: "real list" where
  "spy_bear_closes = replicate 44 440 @ [436, 434, 432, 431, 430, 429]"

definition fear_vix_closes :: "real list" where
  "fear_vix_closes = [33, 35]"

text \<open>A ticker listed three days ago.\<close>

definition short_closes :: "real list" where
  "short_closes = [100, 101, 102]"

text \<open>A ticker in free fall below every average: 200 days ending 95, 92, 90, 88, 86, 84.\<close>

definition crash_closes :: "real list" where
  "crash_closes = replicate 150 120 @ replicate 44 100 @ [95, 92, 90, 88, 86, 84]"

definition aligned_ta :: ta where
  "aligned_ta = table_ta
     [((pullback_closes, 200), CVal 85.235), ((pullback_closes, 50), CVal 100.94),
      ((spy_dip_closes, 50), CVal 441.7), ((spy_rise_closes, 50), CVal 440.92)]
     [((pullback_closes, 20), CVal 100.7)]
     [((pullback_closes, 14), CVal 40)]
     [((pullback_closes, 14), CVal 0.5)]"

definition slump_ta :: ta where
  "slump_ta = table_ta
     [((slump_closes, 200), CVal 115), ((slump_closes, 50), CVal 100)]
     [((slump_closes, 20), CVal 100)]
     [((slump_closes, 14), CVal 45)]
     [((slump_closes, 14), CVal 0.4)]"

definition flat_ta :: ta where
  "flat_ta = table_ta
     [((flat_closes, 200), CVal 50), ((flat_closes, 50), CVal 50)]
     [((flat_closes, 20), CVal 50)]
     [((flat_closes, 14), CNaN)]
     [((flat_closes, 14), CVal 0)]"

text \<open>The trade setup the engine computes for the pullback series.\<close>

definition pullback_trade_setup :: pydict where
  "pullback_trade_setup =
     [(''buy_min'', PFloat (Fin 98.686)),
      (''buy_max'', PFloat (Fin 102.714)),
      (''sell_stop'', PFloat (Fin 92)),
      (''target_safe'', PFloat (Fin 100.4353)),
      (''target_safe_pct'', PFloat (Fin 0.4)),
      (''target_aggro'', PFloat (Fin 110)),
      (''target_aggro_pct'', PFloat (Fin 10)),
      (''prob_safe'', PInt 85),
      (''prob_aggro'', PInt 35),
      (''volatility_supported'', PBool False),
      (''recommended'', PStr ''safe'')]"

definition crash_ta :: ta where
  "crash_ta = table_ta
     [((crash_closes, 200), CVal 114.675), ((crash_closes, 50), CVal 98.7),
      ((spy_bear_closes, 50), CVal 439.04)]
     [((crash_closes, 20), CVal 95.6)]
     [((crash_closes, 14), CVal 5)]
     [((crash_closes, 14), CVal 2)]"

text \<open>
  The REST fetch of four scenarios; a symbol the provider has no bars for raises, as
  \<^verbatim>\<open>fetch_bars_rest\<close> does.
\<close>

definition no_data :: "string \<Rightarrow> error" where
  "no_data symbol = FetchError (''Failed to fetch bars for '' @ symbol @ '': No data returned for '' @ symbol)"

definition aligned_fetch :: "string \<Rightarrow> error + bar list" where
  "aligned_fetch symbol =
     (if symbol = ''ACME'' then Inr (bars_from 0 pullback_closes)
      else if symbol = ''SPY'' then Inr (bars_from 0 spy_dip_closes)
      else if symbol = ''VIX'' then Inr (bars_from 0 calm_vix_closes)
      else Inl (no_data symbol))"

definition weak_fetch :: "string \<Rightarrow> error + bar list" where
  "weak_fetch symbol =
     (if symbol = ''ACME'' then Inr (bars_from 0 pullback_closes)
      else if symbol = ''SPY'' then Inr (bars_from 0 spy_rise_closes)
      else if symbol = ''VIX'' then Inr (bars_from 0 calm_vix_closes)
      else Inl (no_data symbol))"

definition thin_fetch :: "string \<Rightarrow> error + bar list" where
  "thin_fetch symbol =
     (if symbol = ''NEWCO'' then Inr (bars_from 0 short_closes)
      else if symbol = ''SPY'' then Inr (bars_from 0 spy_dip_closes)
      else Inl (no_data symbol))"

definition crash_fetch :: "string \<Rightarrow> error + bar list" where
  "crash_fetch symbol =
     (if symbol = ''ACME'' then Inr (bars_from 0 crash_closes)
      else if symbol = ''SPY'' then Inr (bars_from 0 spy_bear_closes)
      else if symbol = ''VIX'' then Inr (bars_from 0 fear_vix_closes)
      else Inl (no_data symbol))"

section \<open>Evaluating the fixtures\<close>

lemma close_bars_from: "map close (bars_from t cs) = cs"
  by (induction cs arbitrary: t) simp_all

lemma high_bars_from: "map high (bars_from t cs) = cs"
  by (induction cs arbitrary: t) simp_all

lemma low_bars_from: "map low (bars_from t cs) = cs"
  by (induction cs arbitrary: t) simp_all

lemma pullback_last: "iloc pullback_closes (Suc 0) = Inr 100"
  by (simp add: iloc_def pullback_closes_def nth_append)

lemma slump_last: "iloc slump_closes (Suc 0) = Inr 100"
  by (simp add: iloc_def slump_closes_def nth_append)

lemma flat_last: "iloc flat_closes (Suc 0) = Inr 50"
  by (simp add: iloc_def flat_closes_def)

text \<open>The SMA entries of the tables are the means of the last 200 and 50 closes.\<close>

lemma fixture_sma_means:
  "sum_list pullback_closes / 200 = 85.235" "sum_list (drop 150 pullback_closes) / 50 = 100.94"
  "sum_list slump_closes / 200 = 115" "sum_list (drop 150 slump_closes) / 50 = 100"
  "sum_list crash_closes / 200 = 114.675" "sum_list (drop 150 crash_closes) / 50 = 98.7"
  "sum_list flat_closes / 200 = 50" "sum_list (drop 150 flat_closes) / 50 = 50"
  "sum_list spy_dip_closes / 50 = 441.7" "sum_list spy_rise_closes / 50 = 440.92"
  "sum_list spy_bear_closes / 50 = 439.04"
  by (simp_all add: pullback_closes_def slump_closes_def crash_closes_def flat_closes_def
      spy_dip_closes_def spy_rise_closes_def spy_bear_closes_def sum_list_replicate)

section \<open>The technical factor\<close>

lemma trend_filter_cases:
  "fst (trend_filter p c) \<in> {0, 25, 50} \<and> fst (snd (trend_filter p c)) \<in> {40, 100}"
  by (simp add: trend_filter_def split: cell.splits)

lemma rsi_dip_bonus_range: "- 20 \<le> fst (rsi_dip_bonus c) \<and> fst (rsi_dip_bonus c) \<le> 30"
  by (simp add: rsi_dip_bonus_def split: cell.splits)

lemma ema_proximity_range: "- 10 \<le> fst (ema_proximity p c) \<and> fst (ema_proximity p c) \<le> 20"
  by (simp add: ema_proximity_def Let_def split: cell.splits)

text \<open>What a run of the \<^verbatim>\<open>try\<close> block that does not raise has read and computed.\<close>

lemma technicals_try_Inr:
  assumes "calculate_technicals_try lib df = Inr r"
  shows "\<exists>s200 e20 r14 p.
           sma lib (map close df) 200 = Inr s200 \<and> ema lib (map close df) 20 = Inr e20 \<and>
           rsi lib (map close df) 14 = Inr r14 \<and> iloc (map close df) 1 = Inr p \<and>
           score r = max 0 (min (fst (trend_filter p s200) + fst (rsi_dip_bonus r14)
                                   + fst (ema_proximity p e20))
                                (fst (snd (trend_filter p s200))))"
  using assms
  by (auto simp: calculate_technicals_try_def Let_def split: sum.splits prod.splits)

text \<open>Conversely, the block does not raise once the four reads succeed.\<close>

lemma technicals_try_eval:
  assumes "sma lib (map close df) 200 = Inr s200" "ema lib (map close df) 20 = Inr e20"
    "rsi lib (map close df) 14 = Inr r14" "iloc (map close df) 1 = Inr p"
  shows "\<exists>r. calculate_technicals_try lib df = Inr r \<and>
           score r = max 0 (min (fst (trend_filter p s200) + fst (rsi_dip_bonus r14)
                                   + fst (ema_proximity p e20))
                                (fst (snd (trend_filter p s200)))) \<and>
           details r =
             [(''raw_values'',
                 PDict [(''price'', PFloat (Fin p)),
                        (''sma_200'', cell_or_none s200),
                        (''ema_20'', cell_or_none e20),
                        (''rsi'', cell_or_none r14)])] @
             snd (snd (trend_filter p s200)) @ snd (rsi_dip_bonus r14) @ snd (ema_proximity p e20) @
             (if fst (snd (trend_filter p s200)) < 100
              then [(''cap_applied'',
                       PFmt ''Score capped at {} (downtrend protection)''
                         [PInt (fst (snd (trend_filter p s200)))])]
              else []) @
             [(''trend_score'',
                 PInt (if map_of (snd (snd (trend_filter p s200))) ''in_uptrend'' = Some (PBool True)
                       then 50 else 0))]"
  using assms
  by (simp add: calculate_technicals_try_def Let_def split: sum.splits prod.splits)

lemma technicals_score_range:
  "0 \<le> score (calculate_technicals lib df) \<and> score (calculate_technicals lib df) \<le> 100"
proof (cases "calculate_technicals_try lib df")
  case (Inl e)
  then show ?thesis by (simp add: calculate_technicals_def)
next
  case (Inr r)
  from technicals_try_Inr [OF Inr] obtain s200 e20 r14 p where
    sc: "score r = max 0 (min (fst (trend_filter p s200) + fst (rsi_dip_bonus r14)
                                 + fst (ema_proximity p e20))
                              (fst (snd (trend_filter p s200))))"
    by blast
  have "fst (snd (trend_filter p s200)) \<le> 100"
    using trend_filter_cases [of p s200] by auto
  with sc Inr show ?thesis by (simp add: calculate_technicals_def)
qed

text \<open>
  C5 (downtrend cap). Whenever the 200-period SMA of the series is defined and the last
  close is strictly below it, the score \<^verbatim>\<open>calculate_technicals\<close> returns is at most 40,
  whatever the RSI and EMA bonuses are and whether or not another indicator call raises.
\<close>

theorem downtrend_cap:
  assumes "sma lib (map close df) 200 = Inr (CVal s)"
    and "iloc (map close df) 1 = Inr p"
    and "p < s"
  shows "score (calculate_technicals lib df) \<le> 40"
proof (cases "calculate_technicals_try lib df")
  case (Inl e)
  then show ?thesis by (simp add: calculate_technicals_def)
next
  case (Inr r)
  from technicals_try_Inr [OF Inr] assms obtain e20 r14 where
    "score r = max 0 (min (fst (trend_filter p (CVal s)) + fst (rsi_dip_bonus r14)
                             + fst (ema_proximity p e20))
                          (fst (snd (trend_filter p (CVal s)))))"
    by auto
  moreover have "fst (snd (trend_filter p (CVal s))) = 40"
    using \<open>p < s\<close> by (simp add: trend_filter_def)
  ultimately show ?thesis using Inr by (simp add: calculate_technicals_def)
qed

text \<open>
  The slump series: last close 100 under an SMA200 of 115, RSI 45 and the close on the
  EMA20. The bonuses add up to 50 and the returned score is the cap.
\<close>

lemma slump_score: "score (calculate_technicals slump_ta (bars_from 0 slump_closes)) = 40"
  by (simp add: calculate_technicals_def calculate_technicals_try_def close_bars_from slump_ta_def
      table_ta_def slump_last trend_filter_def rsi_dip_bonus_def ema_proximity_def fdiv_def Let_def)

theorem downtrend_cap_witness:
  "sma slump_ta (map close (bars_from 0 slump_closes)) 200 = Inr (CVal 115) \<and>
   iloc (map close (bars_from 0 slump_closes)) 1 = Inr 100 \<and> (100::real) < 115 \<and>
   score (calculate_technicals slump_ta (bars_from 0 slump_closes)) \<le> 40"
proof -
  have a: "sma slump_ta (map close (bars_from 0 slump_closes)) 200 = Inr (CVal 115)"
    by (simp add: slump_ta_def table_ta_def close_bars_from)
  have b: "iloc (map close (bars_from 0 slump_closes)) 1 = Inr 100"
    by (simp add: close_bars_from slump_last)
  have c: "(100::real) < 115" by simp
  from downtrend_cap [OF a b c] a b c show ?thesis by blast
qed

text \<open>
  C6 (RSI sweet spot). When the last close is strictly above the 200-period SMA, the
  14-period RSI is 40 and the last close is within 1% of a non-zero 20-period EMA, the
  score \<^verbatim>\<open>calculate_technicals\<close> returns is exactly 100: base 50, RSI bonus 30 and EMA
  bonus 20, which the clamp to the cap of 100 leaves unchanged.
\<close>

theorem rsi_sweet_spot_score:
  assumes "sma lib (map close df) 200 = Inr (CVal s)"
    and "ema lib (map close df) 20 = Inr (CVal e)"
    and "rsi lib (map close df) 14 = Inr (CVal 40)"
    and "iloc (map close df) 1 = Inr p"
    and "s < p"
    and "e \<noteq> 0"
    and "\<bar>p - e\<bar> \<le> \<bar>e\<bar> / 100"
  shows "score (calculate_technicals lib df) = 100"
proof -
  from technicals_try_eval [OF assms(1-4)] obtain r where
    r: "calculate_technicals_try lib df = Inr r"
    and sc: "score r = max 0 (min (fst (trend_filter p (CVal s)) + fst (rsi_dip_bonus (CVal 40))
                                     + fst (ema_proximity p (CVal e)))
                                  (fst (snd (trend_filter p (CVal s)))))"
    by blast
  have t: "fst (trend_filter p (CVal s)) = 50" "fst (snd (trend_filter p (CVal s))) = 100"
    using \<open>s < p\<close> by (simp_all add: trend_filter_def)
  have b: "fst (rsi_dip_bonus (CVal 40)) = 30"
    by (simp add: rsi_dip_bonus_def)
  define d where "d = (p - e) / e * 100"
  have td: "times100 (fdiv (p - e) e) = Fin d"
    using assms(6) by (simp add: fdiv_def d_def)
  have "\<bar>d\<bar> \<le> 1"
  proof -
    have "\<bar>d\<bar> = \<bar>p - e\<bar> / \<bar>e\<bar> * 100"
      unfolding d_def abs_mult abs_divide by simp
    also have "\<dots> \<le> (\<bar>e\<bar> / 100) / \<bar>e\<bar> * 100"
      using assms(6,7) by (simp add: divide_right_mono)
    also have "\<dots> = 1" using assms(6) by simp
    finally show ?thesis .
  qed
  then have m: "fst (ema_proximity p (CVal e)) = 20"
    by (simp add: ema_proximity_def td Let_def)
  show ?thesis using r sc b m t
    by (simp add: calculate_technicals_def)
qed

theorem rsi_sweet_spot_score_witness:
  "sma aligned_ta (map close (bars_from 0 pullback_closes)) 200 = Inr (CVal 85.235) \<and>
   ema aligned_ta (map close (bars_from 0 pullback_closes)) 20 = Inr (CVal 100.7) \<and>
   rsi aligned_ta (map close (bars_from 0 pullback_closes)) 14 = Inr (CVal 40) \<and>
   iloc (map close (bars_from 0 pullback_closes)) 1 = Inr 100 \<and>
   (85.235::real) < 100 \<and> (100.7::real) \<noteq> 0 \<and> \<bar>100 - 100.7\<bar> \<le> \<bar>100.7::real\<bar> / 100 \<and>
   score (calculate_technicals aligned_ta (bars_from 0 pullback_closes)) = 100"
proof -
  have a: "sma aligned_ta (map close (bars_from 0 pullback_closes)) 200 = Inr (CVal 85.235)"
    by (simp add: aligned_ta_def table_ta_def close_bars_from)
  have b: "ema aligned_ta (map close (bars_from 0 pullback_closes)) 20 = Inr (CVal 100.7)"
    by (simp add: aligned_ta_def table_ta_def close_bars_from)
  have c: "rsi aligned_ta (map close (bars_from 0 pullback_closes)) 14 = Inr (CVal 40)"
    by (simp add: aligned_ta_def table_ta_def close_bars_from)
  have d: "iloc (map close (bars_from 0 pullback_closes)) 1 = Inr 100"
    by (simp add: close_bars_from pullback_last)
  have e: "(85.235::real) < 100" by simp
  have f: "(100.7::real) \<noteq> 0" by simp
  have g: "\<bar>100 - 100.7\<bar> \<le> \<bar>100.7::real\<bar> / 100" by simp
  from rsi_sweet_spot_score [OF a b c d e f g] a b c d e f g show ?thesis by blast
qed

text \<open>
  C9 (close equal to the SMA200). When the last close equals the 200-period SMA, the
  trend filter takes its \<^verbatim>\<open>else\<close> branch: base score 0 and \<^verbatim>\<open>max_score_cap\<close> 40. The
  returned score is the sum of the two bonuses clamped to 0..40, and the details record
  \<^verbatim>\<open>in_uptrend = False\<close>, the cap of 40 and a trend score of 0.
\<close>

theorem equal_sma_is_downtrend:
  assumes "sma lib (map close df) 200 = Inr (CVal s)"
    and "ema lib (map close df) 20 = Inr e20"
    and "rsi lib (map close df) 14 = Inr r14"
    and "iloc (map close df) 1 = Inr s"
  shows "fst (trend_filter s (CVal s)) = 0 \<and> fst (snd (trend_filter s (CVal s))) = 40 \<and>
         score (calculate_technicals lib df)
           = max 0 (min (0 + fst (rsi_dip_bonus r14) + fst (ema_proximity s e20)) 40) \<and>
         map_of (details (calculate_technicals lib df)) ''in_uptrend'' = Some (PBool False) \<and>
         map_of (details (calculate_technicals lib df)) ''cap_applied''
           = Some (PFmt ''Score capped at {} (downtrend protection)'' [PInt 40]) \<and>
         map_of (details (calculate_technicals lib df)) ''trend_score'' = Some (PInt 0)"
proof -
  from technicals_try_eval [OF assms] obtain r where
    r: "calculate_technicals_try lib df = Inr r"
    and sc: "score r = max 0 (min (fst (trend_filter s (CVal s)) + fst (rsi_dip_bonus r14)
                                     + fst (ema_proximity s e20))
                                  (fst (snd (trend_filter s (CVal s)))))"
    and dt: "details r =
             [(''raw_values'',
                 PDict [(''price'', PFloat (Fin s)),
                        (''sma_200'', cell_or_none (CVal s)),
                        (''ema_20'', cell_or_none e20),
                        (''rsi'', cell_or_none r14)])] @
             snd (snd (trend_filter s (CVal s))) @ snd (rsi_dip_bonus r14) @ snd (ema_proximity s e20) @
             (if fst (snd (trend_filter s (CVal s))) < 100
              then [(''cap_applied'',
                       PFmt ''Score capped at {} (downtrend protection)''
                         [PInt (fst (snd (trend_filter s (CVal s))))])]
              else []) @
             [(''trend_score'',
                 PInt (if map_of (snd (snd (trend_filter s (CVal s)))) ''in_uptrend'' = Some (PBool True)
                       then 50 else 0))]"
    by blast
  have t: "trend_filter s (CVal s) =
      (0, 40, [(''trend_filter'',
                  PFmt ''DOWNTREND: ${:.2f} < 200 SMA ${:.2f} (Capped at 40)''
                    [PFloat (Fin s), PFloat (Fin s)]),
               (''in_uptrend'', PBool False)])"
    by (simp add: trend_filter_def)
  have k1: "map_of (snd (rsi_dip_bonus r14)) ''cap_applied'' = None"
     "map_of (snd (rsi_dip_bonus r14)) ''trend_score'' = None"
    by (simp_all add: rsi_dip_bonus_def split: cell.splits)
  have k2: "map_of (snd (ema_proximity s e20)) ''cap_applied'' = None"
     "map_of (snd (ema_proximity s e20)) ''trend_score'' = None"
    by (simp_all add: ema_proximity_def Let_def split: cell.splits)
  have c: "calculate_technicals lib df = r"
    using r by (simp add: calculate_technicals_def)
  show ?thesis
    unfolding c using sc by (simp add: dt t k1 k2 map_add_def)
qed

theorem equal_sma_is_downtrend_witness:
  "sma flat_ta (map close (bars_from 0 flat_closes)) 200 = Inr (CVal 50) \<and>
   ema flat_ta (map close (bars_from 0 flat_closes)) 20 = Inr (CVal 50) \<and>
   rsi flat_ta (map close (bars_from 0 flat_closes)) 14 = Inr CNaN \<and>
   iloc (map close (bars_from 0 flat_closes)) 1 = Inr 50 \<and>
   score (calculate_technicals flat_ta (bars_from 0 flat_closes)) = 20 \<and>
   map_of (details (calculate_technicals flat_ta (bars_from 0 flat_closes))) ''in_uptrend''
     = Some (PBool False)"
proof -
  have a: "sma flat_ta (map close (bars_from 0 flat_closes)) 200 = Inr (CVal 50)"
    by (simp add: flat_ta_def table_ta_def close_bars_from)
  have b: "ema flat_ta (map close (bars_from 0 flat_closes)) 20 = Inr (CVal 50)"
    by (simp add: flat_ta_def table_ta_def close_bars_from)
  have c: "rsi flat_ta (map close (bars_from 0 flat_closes)) 14 = Inr CNaN"
    by (simp add: flat_ta_def table_ta_def close_bars_from)
  have d: "iloc (map close (bars_from 0 flat_closes)) 1 = Inr 50"
    by (simp add: close_bars_from flat_last)
  have e: "fst (rsi_dip_bonus CNaN) = 0"
    by (simp add: rsi_dip_bonus_def)
  have f: "fst (ema_proximity 50 (CVal 50)) = 20"
    by (simp add: ema_proximity_def fdiv_def Let_def)
  from equal_sma_is_downtrend [OF a b c d] a b c d e f show ?thesis by simp
qed

section \<open>The trade setup\<close>

text \<open>The dictionary a run of the \<^verbatim>\<open>try\<close> block returns once its five reads succeed.\<close>

lemma trade_setup_try_eval:
  assumes "ema lib (map close df) 20 = Inr e20"
    and "sma lib (map close df) 50 = Inr s50"
    and "sma lib (map close df) 200 = Inr s200"
    and "atr lib (map high df) (map low df) (map close df) 14 = Inr a14"
    and "iloc (map close df) 1 = Inr p"
  shows "calculate_trade_setup_try lib df =
     Inr [(''buy_min'', PFloat (Fin (fst (entry_zone p e20)))),
          (''buy_max'', PFloat (Fin (snd (entry_zone p e20)))),
          (''sell_stop'', PFloat (Fin (stop_loss p s200))),
          (''target_safe'', PFloat (Fin (base_hit_target p s50))),
          (''target_safe_pct'', PFloat (round1 (times100 (fdiv (base_hit_target p s50 - p) p)))),
          (''target_aggro'', PFloat (Fin (p * 1.10))),
          (''target_aggro_pct'', PFloat (round1 (times100 (fdiv (p * 1.10 - p) p)))),
          (''prob_safe'', PInt (fst (win_probabilities p s200 (atr_supports (p * 1.10) p a14)))),
          (''prob_aggro'', PInt (snd (win_probabilities p s200 (atr_supports (p * 1.10) p a14)))),
          (''volatility_supported'', PBool (atr_supports (p * 1.10) p a14)),
          (''recommended'', PStr ''safe'')]"
  using assms
  by (simp add: calculate_trade_setup_try_def Let_def split: prod.splits)

lemma trade_setup_try_Inr:
  assumes "calculate_trade_setup_try lib df = Inr ts"
  shows "\<exists>e20 s50 s200 a14 p.
           ema lib (map close df) 20 = Inr e20 \<and> sma lib (map close df) 50 = Inr s50 \<and>
           sma lib (map close df) 200 = Inr s200 \<and>
           atr lib (map high df) (map low df) (map close df) 14 = Inr a14 \<and>
           iloc (map close df) 1 = Inr p"
  using assms
  by (auto simp: calculate_trade_setup_try_def Let_def split: sum.splits)

lemma win_probabilities_values:
  "win_probabilities p s200 vs =
     (if (case s200 of CVal s \<Rightarrow> p > s | _ \<Rightarrow> False) then 85 else 75,
      if (case s200 of CVal s \<Rightarrow> p > s | _ \<Rightarrow> False)
      then (if vs then 50 else 35) else (if vs then 40 else 25))"
  by (simp add: win_probabilities_def split: cell.splits)

lemma entry_zone_basis:
  "entry_zone p e20 = (entry_basis p e20 * 0.98, entry_basis p e20 * 1.02)"
  by (simp add: entry_zone_def entry_basis_def split: cell.splits)

lemma stop_loss_lower: "p * 0.92 \<le> stop_loss p s200"
  by (cases s200) (simp_all add: stop_loss_def Let_def le_max_iff_disj)

lemma stop_loss_less_iff:
  "stop_loss p s200 < x \<longleftrightarrow> p * 0.92 < x \<and> (case s200 of CVal s \<Rightarrow> s * 0.99 < x | _ \<Rightarrow> True)"
  by (auto simp: stop_loss_def Let_def split: cell.splits)

lemma base_hit_target_bounds:
  assumes "0 < p"
  shows "p * 0.995 < base_hit_target p s50 \<and> base_hit_target p s50 \<le> p * 1.04"
proof (cases s50)
  case (CVal s)
  show ?thesis
  proof (cases "s > p \<and> f_less (fdiv (s - p) p) (Fin 0.04)")
    case True
    then have "(s - p) / p < 0.04" using assms by (simp add: fdiv_def)
    then have "s - p < 0.04 * p" using assms by (simp add: pos_divide_less_eq)
    then have "s * 0.995 \<le> p * 1.04" using assms by simp
    moreover have "p * 0.995 < s * 0.995" using True by simp
    ultimately show ?thesis using True CVal by (simp add: base_hit_target_def)
  next
    case False
    then show ?thesis using assms CVal by (auto simp: base_hit_target_def)
  qed
qed (use assms in \<open>simp_all add: base_hit_target_def\<close>)

text \<open>The pullback series, and the empty frame.\<close>

lemma aligned_reads:
  "ema aligned_ta pullback_closes 20 = Inr (CVal 100.7)"
  "sma aligned_ta pullback_closes 50 = Inr (CVal 100.94)"
  "sma aligned_ta pullback_closes 200 = Inr (CVal 85.235)"
  "rsi aligned_ta pullback_closes 14 = Inr (CVal 40)"
  "atr aligned_ta pullback_closes pullback_closes pullback_closes 14 = Inr (CVal 0.5)"
  by (simp_all add: aligned_ta_def table_ta_def)

lemma pullback_setup:
  "calculate_trade_setup_try aligned_ta (bars_from 0 pullback_closes) =
     Inr pullback_trade_setup"
  by (simp add: pullback_trade_setup_def calculate_trade_setup_try_def close_bars_from high_bars_from low_bars_from
      aligned_reads pullback_last entry_zone_def stop_loss_def base_hit_target_def atr_supports_def
      win_probabilities_def fdiv_def round_half_even_def Let_def)

lemma empty_setup: "calculate_trade_setup_try aligned_ta [] = Inl IndexError"
  by (simp add: calculate_trade_setup_try_def aligned_ta_def table_ta_def iloc_def)

text \<open>
  C3 (trade setup ordering), as amended. For a series with positive last close and
  positive entry basis on which the calculator succeeds: \<open>buy_min < buy_max\<close> and
  \<open>target_safe < target_aggro\<close> hold, whatever \<open>target_safe_pct\<close> is; the stop is at
  least 0.92 times the close and the safe target lies in (0.995, 1.04] times the close.
  The other two orderings are not guaranteed: \<open>sell_stop < buy_min\<close> holds exactly when
  0.92 times the close, and 0.99 times the SMA200 when it is defined, are below 0.98
  times the entry basis; \<open>buy_max < target_safe\<close> holds exactly when 1.02 times the
  entry basis is below the safe target.
\<close>

theorem trade_setup_ordering:
  assumes "calculate_trade_setup_try lib df = Inr ts"
    and "iloc (map close df) 1 = Inr p"
    and "ema lib (map close df) 20 = Inr e20"
    and "sma lib (map close df) 50 = Inr s50"
    and "sma lib (map close df) 200 = Inr s200"
    and "0 < p"
    and "0 < entry_basis p e20"
  shows "\<exists>sell_stop buy_min buy_max target_safe target_aggro.
      map_of ts ''sell_stop'' = Some (PFloat (Fin sell_stop)) \<and>
      map_of ts ''buy_min'' = Some (PFloat (Fin buy_min)) \<and>
      map_of ts ''buy_max'' = Some (PFloat (Fin buy_max)) \<and>
      map_of ts ''target_safe'' = Some (PFloat (Fin target_safe)) \<and>
      map_of ts ''target_aggro'' = Some (PFloat (Fin target_aggro)) \<and>
      buy_min < buy_max \<and> target_safe < target_aggro \<and>
      p * 0.92 \<le> sell_stop \<and> p * 0.995 < target_safe \<and> target_safe \<le> p * 1.04 \<and>
      (sell_stop < buy_min \<longleftrightarrow>
         p * 0.92 < entry_basis p e20 * 0.98 \<and>
         (case s200 of CVal s \<Rightarrow> s * 0.99 < entry_basis p e20 * 0.98 | _ \<Rightarrow> True)) \<and>
      (buy_max < target_safe \<longleftrightarrow> entry_basis p e20 * 1.02 < base_hit_target p s50)"
proof -
  from trade_setup_try_Inr [OF assms(1)] obtain a14 where
    a: "atr lib (map high df) (map low df) (map close df) 14 = Inr a14"
    by blast
  from trade_setup_try_eval [OF assms(3) assms(4) assms(5) a assms(2)] assms(1) have ts: "ts =
         [(''buy_min'', PFloat (Fin (fst (entry_zone p e20)))),
          (''buy_max'', PFloat (Fin (snd (entry_zone p e20)))),
          (''sell_stop'', PFloat (Fin (stop_loss p s200))),
          (''target_safe'', PFloat (Fin (base_hit_target p s50))),
          (''target_safe_pct'', PFloat (round1 (times100 (fdiv (base_hit_target p s50 - p) p)))),
          (''target_aggro'', PFloat (Fin (p * 1.10))),
          (''target_aggro_pct'', PFloat (round1 (times100 (fdiv (p * 1.10 - p) p)))),
          (''prob_safe'', PInt (fst (win_probabilities p s200 (atr_supports (p * 1.10) p a14)))),
          (''prob_aggro'', PInt (snd (win_probabilities p s200 (atr_supports (p * 1.10) p a14)))),
          (''volatility_supported'', PBool (atr_supports (p * 1.10) p a14)),
          (''recommended'', PStr ''safe'')]"
    by simp
  note tb = base_hit_target_bounds [OF assms(6), of s50]
  have t1: "base_hit_target p s50 < p * 1.10" using tb assms(6) by simp
  have b1: "entry_basis p e20 * 0.98 < entry_basis p e20 * 1.02" using assms(7) by simp
  show ?thesis
    apply (rule exI [where x = "stop_loss p s200"])
    apply (rule exI [where x = "entry_basis p e20 * 0.98"])
    apply (rule exI [where x = "entry_basis p e20 * 1.02"])
    apply (rule exI [where x = "base_hit_target p s50"])
    apply (rule exI [where x = "p * 1.10"])
    apply (simp only: ts entry_zone_basis fst_conv snd_conv)
    apply (intro conjI)
               apply simp
              apply simp
             apply simp
            apply simp
           apply simp
          apply (rule b1)
         apply (rule t1)
        apply (rule stop_loss_lower)
       apply (rule conjunct1 [OF tb])
      apply (rule conjunct2 [OF tb])
     apply (rule stop_loss_less_iff)
    apply (rule refl)
    done
qed

theorem trade_setup_ordering_witness:
  "calculate_trade_setup_try aligned_ta (bars_from 0 pullback_closes) = Inr pullback_trade_setup \<and>
   iloc (map close (bars_from 0 pullback_closes)) 1 = Inr 100 \<and>
   ema aligned_ta (map close (bars_from 0 pullback_closes)) 20 = Inr (CVal 100.7) \<and>
   sma aligned_ta (map close (bars_from 0 pullback_closes)) 50 = Inr (CVal 100.94) \<and>
   sma aligned_ta (map close (bars_from 0 pullback_closes)) 200 = Inr (CVal 85.235) \<and>
   (0::real) < 100 \<and> 0 < entry_basis 100 (CVal 100.7) \<and>
   (\<exists>sell_stop buy_min buy_max target_safe target_aggro.
      map_of pullback_trade_setup ''sell_stop'' = Some (PFloat (Fin sell_stop)) \<and>
      map_of pullback_trade_setup ''buy_min'' = Some (PFloat (Fin buy_min)) \<and>
      map_of pullback_trade_setup ''buy_max'' = Some (PFloat (Fin buy_max)) \<and>
      map_of pullback_trade_setup ''target_safe'' = Some (PFloat (Fin target_safe)) \<and>
      map_of pullback_trade_setup ''target_aggro'' = Some (PFloat (Fin target_aggro)) \<and>
      buy_min < buy_max \<and> target_safe < target_aggro \<and>
      100 * 0.92 \<le> sell_stop \<and> 100 * 0.995 < target_safe \<and> target_safe \<le> 100 * 1.04 \<and>
      (sell_stop < buy_min \<longleftrightarrow>
         100 * 0.92 < entry_basis 100 (CVal 100.7) * 0.98 \<and>
         (case CVal 85.235 of CVal s \<Rightarrow> s * 0.99 < entry_basis 100 (CVal 100.7) * 0.98 | _ \<Rightarrow> True)) \<and>
      (buy_max < target_safe \<longleftrightarrow>
         entry_basis 100 (CVal 100.7) * 1.02 < base_hit_target 100 (CVal 100.94)))"
proof -
  have a: "calculate_trade_setup_try aligned_ta (bars_from 0 pullback_closes) = Inr pullback_trade_setup"
    by (rule pullback_setup)
  have b: "iloc (map close (bars_from 0 pullback_closes)) 1 = Inr 100"
    by (simp add: close_bars_from pullback_last)
  have c: "ema aligned_ta (map close (bars_from 0 pullback_closes)) 20 = Inr (CVal 100.7)"
    by (simp add: close_bars_from aligned_reads)
  have d: "sma aligned_ta (map close (bars_from 0 pullback_closes)) 50 = Inr (CVal 100.94)"
    by (simp add: close_bars_from aligned_reads)
  have e: "sma aligned_ta (map close (bars_from 0 pullback_closes)) 200 = Inr (CVal 85.235)"
    by (simp add: close_bars_from aligned_reads)
  have f: "(0::real) < 100" by simp
  have g: "0 < entry_basis 100 (CVal 100.7)" by (simp add: entry_basis_def)
  note concl = trade_setup_ordering [OF a b c d e f g]
  show ?thesis by (intro conjI a b c d e f g concl)
qed

text \<open>
  The claim as stated fails on the pullback series: the SMA50 (100.94) lies within 4%
  above the close (100), so the safe target is 0.995 times it, 100.4353, which is below
  \<open>buy_max\<close> = 1.02 times the EMA20 = 102.714.
\<close>

theorem trade_setup_ordering_counterexample:
  "map_of (calculate_trade_setup aligned_ta (bars_from 0 pullback_closes)) ''error'' = None \<and>
   map_of (calculate_trade_setup aligned_ta (bars_from 0 pullback_closes)) ''buy_max''
     = Some (PFloat (Fin 102.714)) \<and>
   map_of (calculate_trade_setup aligned_ta (bars_from 0 pullback_closes)) ''target_safe''
     = Some (PFloat (Fin 100.4353)) \<and>
   \<not> ((102.714::real) < 100.4353)"
  by (simp add: calculate_trade_setup_def pullback_setup pullback_trade_setup_def)

text \<open>
  C7 (probability bounds). On every successful run the returned \<open>prob_safe\<close> is
  within 75..85 and \<open>prob_aggro\<close> within 20..55: the bases 75 and 40 are raised by 10
  (capped at 85 and 55) exactly when the SMA200 is defined and the last close is above
  it, and \<open>prob_aggro\<close> is then lowered by 15 (floored at 20) exactly when the returned
  \<open>volatility_supported\<close> is false.
\<close>

theorem win_probability_bounds:
  assumes "calculate_trade_setup_try lib df = Inr ts"
  shows "\<exists>prob_safe prob_aggro vs p s200.
      map_of ts ''prob_safe'' = Some (PInt prob_safe) \<and>
      map_of ts ''prob_aggro'' = Some (PInt prob_aggro) \<and>
      map_of ts ''volatility_supported'' = Some (PBool vs) \<and>
      iloc (map close df) 1 = Inr p \<and> sma lib (map close df) 200 = Inr s200 \<and>
      75 \<le> prob_safe \<and> prob_safe \<le> 85 \<and> 20 \<le> prob_aggro \<and> prob_aggro \<le> 55 \<and>
      prob_safe = (if (case s200 of CVal s \<Rightarrow> p > s | _ \<Rightarrow> False) then min 85 (75 + 10) else 75) \<and>
      prob_aggro =
        (let raised = (if (case s200 of CVal s \<Rightarrow> p > s | _ \<Rightarrow> False) then min 55 (40 + 10) else 40)
         in if vs then raised else max 20 (raised - 15))"
proof -
  from trade_setup_try_Inr [OF assms] obtain e20 s50 s200 a14 p where
    h: "ema lib (map close df) 20 = Inr e20" "sma lib (map close df) 50 = Inr s50"
       "sma lib (map close df) 200 = Inr s200"
       "atr lib (map high df) (map low df) (map close df) 14 = Inr a14"
       "iloc (map close df) 1 = Inr p"
    by blast
  from trade_setup_try_eval [OF h] assms have ts: "ts =
         [(''buy_min'', PFloat (Fin (fst (entry_zone p e20)))),
          (''buy_max'', PFloat (Fin (snd (entry_zone p e20)))),
          (''sell_stop'', PFloat (Fin (stop_loss p s200))),
          (''target_safe'', PFloat (Fin (base_hit_target p s50))),
          (''target_safe_pct'', PFloat (round1 (times100 (fdiv (base_hit_target p s50 - p) p)))),
          (''target_aggro'', PFloat (Fin (p * 1.10))),
          (''target_aggro_pct'', PFloat (round1 (times100 (fdiv (p * 1.10 - p) p)))),
          (''prob_safe'', PInt (fst (win_probabilities p s200 (atr_supports (p * 1.10) p a14)))),
          (''prob_aggro'', PInt (snd (win_probabilities p s200 (atr_supports (p * 1.10) p a14)))),
          (''volatility_supported'', PBool (atr_supports (p * 1.10) p a14)),
          (''recommended'', PStr ''safe'')]"
    by simp
  show ?thesis
    apply (insert h(3) h(5))
    apply (rule exI [where x = "fst (win_probabilities p s200 (atr_supports (p * 1.10) p a14))"])
    apply (rule exI [where x = "snd (win_probabilities p s200 (atr_supports (p * 1.10) p a14))"])
    apply (rule exI [where x = "atr_supports (p * 1.10) p a14"])
    apply (rule exI [where x = p])
    apply (rule exI [where x = s200])
    apply (simp add: ts win_probabilities_values Let_def)
    done
qed

theorem win_probability_bounds_witness:
  "calculate_trade_setup_try aligned_ta (bars_from 0 pullback_closes) = Inr pullback_trade_setup \<and>
   (\<exists>prob_safe prob_aggro vs p s200.
      map_of pullback_trade_setup ''prob_safe'' = Some (PInt prob_safe) \<and>
      map_of pullback_trade_setup ''prob_aggro'' = Some (PInt prob_aggro) \<and>
      map_of pullback_trade_setup ''volatility_supported'' = Some (PBool vs) \<and>
      iloc (map close (bars_from 0 pullback_closes)) 1 = Inr p \<and>
      sma aligned_ta (map close (bars_from 0 pullback_closes)) 200 = Inr s200 \<and>
      75 \<le> prob_safe \<and> prob_safe \<le> 85 \<and> 20 \<le> prob_aggro \<and> prob_aggro \<le> 55 \<and>
      prob_safe = (if (case s200 of CVal s \<Rightarrow> p > s | _ \<Rightarrow> False) then min 85 (75 + 10) else 75) \<and>
      prob_aggro =
        (let raised = (if (case s200 of CVal s \<Rightarrow> p > s | _ \<Rightarrow> False) then min 55 (40 + 10) else 40)
         in if vs then raised else max 20 (raised - 15))) \<and>
   map_of pullback_trade_setup ''prob_safe'' = Some (PInt 85) \<and>
   map_of pullback_trade_setup ''prob_aggro'' = Some (PInt 35)"
proof -
  have a: "calculate_trade_setup_try aligned_ta (bars_from 0 pullback_closes) = Inr pullback_trade_setup"
    by (rule pullback_setup)
  note concl = win_probability_bounds [OF a]
  have b: "map_of pullback_trade_setup ''prob_safe'' = Some (PInt 85)"
    by (simp add: pullback_trade_setup_def)
  have c: "map_of pullback_trade_setup ''prob_aggro'' = Some (PInt 35)"
    by (simp add: pullback_trade_setup_def)
  show ?thesis by (intro conjI a concl b c)
qed

text \<open>
  C8 (the trade setup never raises). \<^verbatim>\<open>calculate_trade_setup\<close> returns a dictionary on
  every input. Every key of a TradeSetup is present in it. When the body raises an
  exception \<open>e\<close>, the result is the default dictionary with \<open>str(e)\<close> under
  \<^verbatim>\<open>error\<close>; when the body returns, the result is what it returned and has no
  \<^verbatim>\<open>error\<close> key.
\<close>

theorem trade_setup_never_raises:
  "(\<forall>k \<in> set trade_setup_keys. map_of (calculate_trade_setup lib df) k \<noteq> None) \<and>
   (\<forall>e. calculate_trade_setup_try lib df = Inl e \<longrightarrow>
        calculate_trade_setup lib df = default_trade_setup e \<and>
        map_of (calculate_trade_setup lib df) ''error'' = Some (PStr (str_of e))) \<and>
   (\<forall>ts. calculate_trade_setup_try lib df = Inr ts \<longrightarrow>
        calculate_trade_setup lib df = ts \<and> map_of ts ''error'' = None)"
proof (cases "calculate_trade_setup_try lib df")
  case (Inl e)
  then show ?thesis
    by (simp add: calculate_trade_setup_def default_trade_setup_def trade_setup_keys_def)
next
  case (Inr ts)
  from trade_setup_try_Inr [OF Inr] obtain e20 s50 s200 a14 p where
    h: "ema lib (map close df) 20 = Inr e20" "sma lib (map close df) 50 = Inr s50"
       "sma lib (map close df) 200 = Inr s200"
       "atr lib (map high df) (map low df) (map close df) 14 = Inr a14"
       "iloc (map close df) 1 = Inr p"
    by blast
  from trade_setup_try_eval [OF h] Inr show ?thesis
    by (simp add: calculate_trade_setup_def trade_setup_keys_def)
qed

theorem trade_setup_never_raises_witness:
  "calculate_trade_setup_try aligned_ta [] = Inl IndexError \<and>
   calculate_trade_setup aligned_ta [] = default_trade_setup IndexError \<and>
   map_of (calculate_trade_setup aligned_ta []) ''error'' = Some (PStr (str_of IndexError)) \<and>
   ''buy_min'' \<in> set trade_setup_keys \<and>
   map_of (calculate_trade_setup aligned_ta []) ''buy_min'' = Some (PInt 0) \<and>
   calculate_trade_setup_try aligned_ta (bars_from 0 pullback_closes) = Inr pullback_trade_setup \<and>
   calculate_trade_setup aligned_ta (bars_from 0 pullback_closes) = pullback_trade_setup \<and>
   map_of pullback_trade_setup ''error'' = None"
proof -
  have a: "calculate_trade_setup_try aligned_ta [] = Inl IndexError"
    by (rule empty_setup)
  have b: "calculate_trade_setup_try aligned_ta (bars_from 0 pullback_closes) = Inr pullback_trade_setup"
    by (rule pullback_setup)
  have k: "''buy_min'' \<in> set trade_setup_keys"
    by (simp add: trade_setup_keys_def)
  from trade_setup_never_raises [of aligned_ta "[]"] a
  have c: "calculate_trade_setup aligned_ta [] = default_trade_setup IndexError"
    and d: "map_of (calculate_trade_setup aligned_ta []) ''error'' = Some (PStr (str_of IndexError))"
    by blast+
  have e: "map_of (calculate_trade_setup aligned_ta []) ''buy_min'' = Some (PInt 0)"
    by (simp add: c default_trade_setup_def)
  from trade_setup_never_raises [of aligned_ta "bars_from 0 pullback_closes"] b
  have f: "calculate_trade_setup aligned_ta (bars_from 0 pullback_closes) = pullback_trade_setup"
    and g: "map_of pullback_trade_setup ''error'' = None"
    by blast+
  show ?thesis by (intro conjI a c d k e b f g)
qed

section \<open>More fixture values\<close>

lemma series_lengths:
  "length pullback_closes = 200" "length spy_dip_closes = 50" "length spy_rise_closes = 50"
  "length short_closes = 3" "length crash_closes = 200" "length spy_bear_closes = 50"
  by (simp_all add: pullback_closes_def spy_dip_closes_def spy_rise_closes_def short_closes_def
      crash_closes_def spy_bear_closes_def)

lemma neq_by_length: "length xs \<noteq> length ys \<Longrightarrow> xs \<noteq> ys"
  by auto

lemma series_distinct:
  "spy_dip_closes \<noteq> pullback_closes" "short_closes \<noteq> pullback_closes"
  "short_closes \<noteq> spy_dip_closes" "spy_bear_closes \<noteq> crash_closes"
  by (rule neq_by_length, simp add: series_lengths)+

lemma series_last:
  "iloc spy_dip_closes (Suc 0) = Inr 450" "iloc short_closes (Suc 0) = Inr 102"
  "iloc crash_closes (Suc 0) = Inr 84" "iloc spy_bear_closes (Suc 0) = Inr 429"
  by (simp_all add: iloc_def spy_dip_closes_def short_closes_def crash_closes_def
      spy_bear_closes_def nth_append)

lemma series_returns:
  "five_day_return pullback_closes = Inr (Fin (- (100 / 101)))"
  "five_day_return spy_dip_closes = Inr (Fin (- (100 / 51)))"
  "five_day_return spy_rise_closes = Inr (Fin (120 / 89))"
  "five_day_return crash_closes = Inr (Fin (- (220 / 19)))"
  "five_day_return spy_bear_closes = Inr (Fin (- (175 / 109)))"
  by (simp_all add: five_day_return_def iloc_def pullback_closes_def spy_dip_closes_def
      spy_rise_closes_def crash_closes_def spy_bear_closes_def nth_append fdiv_def)

lemma pullback_technicals:
  "score (calculate_technicals aligned_ta (bars_from 0 pullback_closes)) = 100"
  by (simp add: calculate_technicals_def calculate_technicals_try_def close_bars_from aligned_reads
      pullback_last trend_filter_def rsi_dip_bonus_def ema_proximity_def fdiv_def Let_def)

lemma spy_dip_regime:
  "score (calculate_market_regime aligned_ta (bars_from 0 spy_dip_closes)
            (Some (bars_from 0 calm_vix_closes))) = 30"
  "score (calculate_market_regime aligned_ta (bars_from 0 spy_dip_closes) None) = 15"
  by (simp_all add: calculate_market_regime_def calculate_market_regime_try_def close_bars_from
      aligned_ta_def table_ta_def series_distinct series_last calm_vix_closes_def Let_def)

lemma pullback_vs_spy_dip:
  "calculate_relative_strength (bars_from 0 pullback_closes) (bars_from 0 spy_dip_closes) =
     (20, [(''stock_5d_return'', PFmt ''{:+.2f}%'' [PFloat (Fin (- (100 / 101)))]),
           (''spy_5d_return'', PFmt ''{:+.2f}%'' [PFloat (Fin (- (100 / 51)))]),
           (''status'', PStr ''Leader (+20)'')], False)"
  by (simp add: calculate_relative_strength_def calculate_relative_strength_try_def close_bars_from
      series_returns)

lemma short_technicals:
  "score (calculate_technicals aligned_ta (bars_from 0 short_closes)) = 25"
  by (simp add: calculate_technicals_def calculate_technicals_try_def close_bars_from
      aligned_ta_def table_ta_def series_distinct series_last trend_filter_def rsi_dip_bonus_def
      ema_proximity_def Let_def)

lemma crash_reads:
  "ema crash_ta crash_closes 20 = Inr (CVal 95.6)"
  "sma crash_ta crash_closes 50 = Inr (CVal 98.7)"
  "sma crash_ta crash_closes 200 = Inr (CVal 114.675)"
  "rsi crash_ta crash_closes 14 = Inr (CVal 5)"
  "atr crash_ta crash_closes crash_closes crash_closes 14 = Inr (CVal 2)"
  "sma crash_ta spy_bear_closes 50 = Inr (CVal 439.04)"
  by (simp_all add: crash_ta_def table_ta_def series_distinct)

lemma crash_technicals:
  "score (calculate_technicals crash_ta (bars_from 0 crash_closes)) = 0"
  by (simp add: calculate_technicals_def calculate_technicals_try_def close_bars_from crash_reads
      series_last trend_filter_def rsi_dip_bonus_def ema_proximity_def fdiv_def Let_def)

lemma spy_bear_regime:
  "score (calculate_market_regime crash_ta (bars_from 0 spy_bear_closes)
            (Some (bars_from 0 fear_vix_closes))) = 0"
  by (simp add: calculate_market_regime_def calculate_market_regime_try_def close_bars_from
      crash_reads series_last fear_vix_closes_def Let_def)

lemma crash_vs_spy_bear:
  "calculate_relative_strength (bars_from 0 crash_closes) (bars_from 0 spy_bear_closes) =
     (0, [(''stock_5d_return'', PFmt ''{:+.2f}%'' [PFloat (Fin (- (220 / 19)))]),
          (''spy_5d_return'', PFmt ''{:+.2f}%'' [PFloat (Fin (- (175 / 109)))]),
          (''status'', PStr ''Laggard (0)'')], False)"
  by (simp add: calculate_relative_strength_def calculate_relative_strength_try_def close_bars_from
      series_returns)

section \<open>The aggregator\<close>

lemma iloc_1: "iloc xs 1 = iloc xs (Suc 0)"
  by simp

lemma calculate_score_normal:
  assumes "fetch ticker = Inr stock_df"
    and "fetch ''SPY'' = Inr spy_df"
    and "calculate_relative_strength stock_df spy_df = (rel_score, rel_details, False)"
    and "iloc (map close stock_df) 1 = Inr p"
  shows "calculate_score lib fetch ticker =
     [(''ticker'', PStr ticker),
      (''score'', PInt (score (calculate_technicals lib stock_df)
                        + score (calculate_market_regime lib spy_df
                                   (case fetch ''VIX'' of Inl e \<Rightarrow> None | Inr v \<Rightarrow> Some v))
                        + rel_score)),
      (''verdict'', PStr (get_verdict (score (calculate_technicals lib stock_df)
                        + score (calculate_market_regime lib spy_df
                                   (case fetch ''VIX'' of Inl e \<Rightarrow> None | Inr v \<Rightarrow> Some v))
                        + rel_score) False)),
      (''breakdown'',
         breakdown (calculate_technicals lib stock_df)
           (calculate_market_regime lib spy_df (case fetch ''VIX'' of Inl e \<Rightarrow> None | Inr v \<Rightarrow> Some v))
           rel_score rel_details),
      (''current_price'', PFloat (Fin p)),
      (''trade_setup'', PDict (calculate_trade_setup lib stock_df))]"
  using assms(4) unfolding iloc_1
  by (simp add: calculate_score_def assms(1-3) breakdown_def Let_def)

lemma calculate_score_kill:
  assumes "fetch ticker = Inr stock_df"
    and "fetch ''SPY'' = Inr spy_df"
    and "calculate_relative_strength stock_df spy_df = (rel_score, rel_details, True)"
    and "iloc (map close stock_df) 1 = Inr p"
  shows "calculate_score lib fetch ticker =
     [(''ticker'', PStr ticker),
      (''score'', PInt 0),
      (''verdict'', PStr ''AVOID (Rel. Weakness)''),
      (''reason'', PStr ''RELATIVE WEAKNESS KILL SWITCH''),
      (''breakdown'',
         breakdown (calculate_technicals lib stock_df)
           (calculate_market_regime lib spy_df (case fetch ''VIX'' of Inl e \<Rightarrow> None | Inr v \<Rightarrow> Some v))
           0 rel_details),
      (''current_price'', PFloat (Fin p))]"
  using assms(4) unfolding iloc_1
  by (simp add: calculate_score_def assms(1-3) breakdown_def get_verdict_def Let_def)

lemma regime_score_range:
  "0 \<le> score (calculate_market_regime lib spy vix) \<and> score (calculate_market_regime lib spy vix) \<le> 30"
  by (auto simp: calculate_market_regime_def calculate_market_regime_try_def Let_def
      split: sum.splits prod.splits cell.splits option.splits if_splits)

lemma relative_strength_cases:
  "calculate_relative_strength s m = (r, d, k) \<Longrightarrow> (r = 0 \<or> r = 20) \<and> (k \<longrightarrow> r = 0)"
  by (auto simp: calculate_relative_strength_def calculate_relative_strength_try_def Let_def
      split: sum.splits if_splits)

lemma five_day_return_iloc:
  "five_day_return cs = Inr r \<Longrightarrow> \<exists>p. iloc cs 1 = Inr p"
  by (auto simp: five_day_return_def split: sum.splits)

lemma five_day_return_short: "length cs < 6 \<Longrightarrow> five_day_return cs = Inl IndexError"
  by (auto simp: five_day_return_def iloc_def split: sum.splits)

lemma relative_strength_short:
  "length stock_df < 6 \<or> length spy_df < 6 \<Longrightarrow>
   calculate_relative_strength_try stock_df spy_df = Inl IndexError"
  by (auto simp: calculate_relative_strength_try_def five_day_return_def iloc_def split: sum.splits)

lemma composite_score_range:
  assumes "fetch ticker = Inr stock_df"
    and "fetch ''SPY'' = Inr spy_df"
    and "calculate_relative_strength stock_df spy_df = (rel_score, rel_details, False)"
    and "iloc (map close stock_df) 1 = Inr p"
  shows "\<exists>final_score.
           map_of (calculate_score lib fetch ticker) ''score'' = Some (PInt final_score) \<and>
           final_score = score (calculate_technicals lib stock_df)
                         + score (calculate_market_regime lib spy_df
                                    (case fetch ''VIX'' of Inl e \<Rightarrow> None | Inr v \<Rightarrow> Some v))
                         + rel_score \<and>
           0 \<le> final_score \<and> final_score \<le> 150"
proof -
  note t = technicals_score_range [of lib stock_df]
  note r = regime_score_range [of lib spy_df "case fetch ''VIX'' of Inl e \<Rightarrow> None | Inr v \<Rightarrow> Some v"]
  from relative_strength_cases [OF assms(3)] have s: "rel_score = 0 \<or> rel_score = 20" by simp
  show ?thesis
    unfolding calculate_score_normal [OF assms]
    using t r s by auto
qed

text \<open>
  C1 (composite score). On the normal path the composite is the sum of the three
  sub-scores (\<open>composite_score_range\<close>), but the engine does not keep it within
  0..100: for the pullback series against a market that dips more, with a calm
  volatility index, the technical factor scores 100, the regime 30 and relative strength
  20, and \<^verbatim>\<open>calculate_score\<close> returns 150.
\<close>

theorem composite_score_exceeds_100:
  "map_of (calculate_score aligned_ta aligned_fetch ''ACME'') ''score'' = Some (PInt 150) \<and>
   map_of (calculate_score aligned_ta aligned_fetch ''ACME'') ''verdict'' = Some (PStr ''STRONG BUY'') \<and>
   map_of (calculate_score aligned_ta aligned_fetch ''ACME'') ''reason'' = None \<and>
   map_of (calculate_score aligned_ta aligned_fetch ''ACME'') ''error'' = None \<and>
   score (calculate_technicals aligned_ta (bars_from 0 pullback_closes)) = 100 \<and>
   score (calculate_market_regime aligned_ta (bars_from 0 spy_dip_closes)
            (Some (bars_from 0 calm_vix_closes))) = 30 \<and>
   fst (calculate_relative_strength (bars_from 0 pullback_closes) (bars_from 0 spy_dip_closes)) = 20 \<and>
   \<not> (150 \<le> (100::int))"
proof -
  have a: "aligned_fetch ''ACME'' = Inr (bars_from 0 pullback_closes)"
    by (simp add: aligned_fetch_def)
  have b: "aligned_fetch ''SPY'' = Inr (bars_from 0 spy_dip_closes)"
    by (simp add: aligned_fetch_def)
  have v: "aligned_fetch ''VIX'' = Inr (bars_from 0 calm_vix_closes)"
    by (simp add: aligned_fetch_def)
  have p: "iloc (map close (bars_from 0 pullback_closes)) 1 = Inr 100"
    by (simp add: close_bars_from pullback_last)
  show ?thesis
    unfolding calculate_score_normal [OF a b pullback_vs_spy_dip p]
    by (simp add: v pullback_technicals spy_dip_regime pullback_vs_spy_dip get_verdict_def)
qed

text \<open>
  C2 (kill switch). Whenever both fetches succeed and the 5-bar return of the ticker is
  negative while that of the market proxy is positive, the result of
  \<^verbatim>\<open>calculate_score\<close> has score 0, verdict "AVOID (Rel. Weakness)" and a reason;
  \<^verbatim>\<open>calculate_relative_strength\<close> returns score 0 with the kill switch set, and the
  breakdown reports relative strength 0 beside whatever the technical and regime factors
  scored.
\<close>

theorem kill_switch_invariant:
  assumes "fetch ticker = Inr stock_df"
    and "fetch ''SPY'' = Inr spy_df"
    and "five_day_return (map close stock_df) = Inr stock_return"
    and "five_day_return (map close spy_df) = Inr spy_return"
    and "f_less stock_return (Fin 0)"
    and "f_less (Fin 0) spy_return"
  shows "map_of (calculate_score lib fetch ticker) ''score'' = Some (PInt 0) \<and>
         map_of (calculate_score lib fetch ticker) ''verdict'' = Some (PStr ''AVOID (Rel. Weakness)'') \<and>
         map_of (calculate_score lib fetch ticker) ''reason''
           = Some (PStr ''RELATIVE WEAKNESS KILL SWITCH'') \<and>
         (\<exists>rel_details.
            calculate_relative_strength stock_df spy_df = (0, rel_details, True) \<and>
            map_of (calculate_score lib fetch ticker) ''breakdown''
              = Some (breakdown (calculate_technicals lib stock_df)
                        (calculate_market_regime lib spy_df
                           (case fetch ''VIX'' of Inl e \<Rightarrow> None | Inr v \<Rightarrow> Some v))
                        0 rel_details))"
proof -
  have rs: "calculate_relative_strength stock_df spy_df =
      (0, [(''stock_5d_return'', PFmt ''{:+.2f}%'' [PFloat stock_return]),
           (''spy_5d_return'', PFmt ''{:+.2f}%'' [PFloat spy_return]),
           (''status'', PStr ''[ALERT] RELATIVE WEAKNESS (Auto-Fail)'')], True)"
    using assms(3-6)
    by (simp add: calculate_relative_strength_def calculate_relative_strength_try_def)
  from five_day_return_iloc [OF assms(3)] obtain p where p: "iloc (map close stock_df) 1 = Inr p"
    by blast
  show ?thesis
    unfolding calculate_score_kill [OF assms(1) assms(2) rs p]
    using rs by simp
qed

theorem kill_switch_invariant_witness:
  "weak_fetch ''ACME'' = Inr (bars_from 0 pullback_closes) \<and>
   weak_fetch ''SPY'' = Inr (bars_from 0 spy_rise_closes) \<and>
   five_day_return (map close (bars_from 0 pullback_closes)) = Inr (Fin (- (100 / 101))) \<and>
   five_day_return (map close (bars_from 0 spy_rise_closes)) = Inr (Fin (120 / 89)) \<and>
   f_less (Fin (- (100 / 101))) (Fin 0) \<and> f_less (Fin 0) (Fin (120 / 89)) \<and>
   map_of (calculate_score aligned_ta weak_fetch ''ACME'') ''score'' = Some (PInt 0) \<and>
   map_of (calculate_score aligned_ta weak_fetch ''ACME'') ''verdict''
     = Some (PStr ''AVOID (Rel. Weakness)'') \<and>
   map_of (calculate_score aligned_ta weak_fetch ''ACME'') ''reason''
     = Some (PStr ''RELATIVE WEAKNESS KILL SWITCH'') \<and>
   (\<exists>rel_details.
      calculate_relative_strength (bars_from 0 pullback_closes) (bars_from 0 spy_rise_closes)
        = (0, rel_details, True) \<and>
      map_of (calculate_score aligned_ta weak_fetch ''ACME'') ''breakdown''
        = Some (breakdown (calculate_technicals aligned_ta (bars_from 0 pullback_closes))
                  (calculate_market_regime aligned_ta (bars_from 0 spy_rise_closes)
                     (case weak_fetch ''VIX'' of Inl e \<Rightarrow> None | Inr v \<Rightarrow> Some v))
                  0 rel_details))"
proof -
  have a: "weak_fetch ''ACME'' = Inr (bars_from 0 pullback_closes)"
    by (simp add: weak_fetch_def)
  have b: "weak_fetch ''SPY'' = Inr (bars_from 0 spy_rise_closes)"
    by (simp add: weak_fetch_def)
  have c: "five_day_return (map close (bars_from 0 pullback_closes)) = Inr (Fin (- (100 / 101)))"
    by (simp add: close_bars_from series_returns)
  have d: "five_day_return (map close (bars_from 0 spy_rise_closes)) = Inr (Fin (120 / 89))"
    by (simp add: close_bars_from series_returns)
  have e: "f_less (Fin (- (100 / 101))) (Fin 0)" by simp
  have f: "f_less (Fin 0) (Fin (120 / 89))" by simp
  note concl = kill_switch_invariant [OF a b c d e f, of aligned_ta]
  show ?thesis
    by (intro conjI a b c d e f concl [THEN conjunct1] concl [THEN conjunct2, THEN conjunct1]
        concl [THEN conjunct2, THEN conjunct2, THEN conjunct1]
        concl [THEN conjunct2, THEN conjunct2, THEN conjunct2])
qed

text \<open>
  C10 (an error inside relative strength). When the body of
  \<^verbatim>\<open>calculate_relative_strength\<close> raises (as it does when either series has fewer than
  six bars, \<open>relative_strength_short\<close>), the factor returns score 0, the message under
  \<^verbatim>\<open>error\<close> and no kill switch. \<^verbatim>\<open>calculate_score\<close> then takes the normal path: the
  composite is technicals + regime + 0, the trade setup is attached, and the result has
  neither \<^verbatim>\<open>reason\<close> nor \<^verbatim>\<open>error\<close>.
\<close>

theorem relative_strength_error_is_not_a_veto:
  assumes "fetch ticker = Inr stock_df"
    and "fetch ''SPY'' = Inr spy_df"
    and "calculate_relative_strength_try stock_df spy_df = Inl e"
    and "iloc (map close stock_df) 1 = Inr p"
  shows "calculate_relative_strength stock_df spy_df = (0, [(''error'', PStr (str_of e))], False) \<and>
         map_of (calculate_score lib fetch ticker) ''score''
           = Some (PInt (score (calculate_technicals lib stock_df)
                         + score (calculate_market_regime lib spy_df
                                    (case fetch ''VIX'' of Inl e \<Rightarrow> None | Inr v \<Rightarrow> Some v))
                         + 0)) \<and>
         map_of (calculate_score lib fetch ticker) ''breakdown''
           = Some (breakdown (calculate_technicals lib stock_df)
                     (calculate_market_regime lib spy_df
                        (case fetch ''VIX'' of Inl e \<Rightarrow> None | Inr v \<Rightarrow> Some v))
                     0 [(''error'', PStr (str_of e))]) \<and>
         map_of (calculate_score lib fetch ticker) ''trade_setup''
           = Some (PDict (calculate_trade_setup lib stock_df)) \<and>
         map_of (calculate_score lib fetch ticker) ''reason'' = None \<and>
         map_of (calculate_score lib fetch ticker) ''error'' = None"
proof -
  have rs: "calculate_relative_strength stock_df spy_df = (0, [(''error'', PStr (str_of e))], False)"
    using assms(3) by (simp add: calculate_relative_strength_def)
  show ?thesis
    unfolding calculate_score_normal [OF assms(1) assms(2) rs assms(4)]
    using rs by simp
qed

theorem relative_strength_error_is_not_a_veto_witness:
  "thin_fetch ''NEWCO'' = Inr (bars_from 0 short_closes) \<and>
   thin_fetch ''SPY'' = Inr (bars_from 0 spy_dip_closes) \<and>
   calculate_relative_strength_try (bars_from 0 short_closes) (bars_from 0 spy_dip_closes)
     = Inl IndexError \<and>
   iloc (map close (bars_from 0 short_closes)) 1 = Inr 102 \<and>
   calculate_relative_strength (bars_from 0 short_closes) (bars_from 0 spy_dip_closes)
     = (0, [(''error'', PStr (str_of IndexError))], False) \<and>
   map_of (calculate_score aligned_ta thin_fetch ''NEWCO'') ''score'' = Some (PInt 40) \<and>
   map_of (calculate_score aligned_ta thin_fetch ''NEWCO'') ''trade_setup''
     = Some (PDict (calculate_trade_setup aligned_ta (bars_from 0 short_closes))) \<and>
   map_of (calculate_score aligned_ta thin_fetch ''NEWCO'') ''reason'' = None \<and>
   map_of (calculate_score aligned_ta thin_fetch ''NEWCO'') ''error'' = None"
proof -
  have a: "thin_fetch ''NEWCO'' = Inr (bars_from 0 short_closes)"
    by (simp add: thin_fetch_def)
  have b: "thin_fetch ''SPY'' = Inr (bars_from 0 spy_dip_closes)"
    by (simp add: thin_fetch_def)
  have v: "thin_fetch ''VIX'' = Inl (no_data ''VIX'')"
    by (simp add: thin_fetch_def)
  have "length (map close (bars_from 0 short_closes)) < 6"
    by (simp add: close_bars_from series_lengths)
  then have c: "calculate_relative_strength_try (bars_from 0 short_closes) (bars_from 0 spy_dip_closes)
     = Inl IndexError"
    by (intro relative_strength_short) simp
  have d: "iloc (map close (bars_from 0 short_closes)) 1 = Inr 102"
    by (simp add: close_bars_from series_last)
  note concl = relative_strength_error_is_not_a_veto [OF a b c d, of aligned_ta]
  have s: "score (calculate_technicals aligned_ta (bars_from 0 short_closes))
           + score (calculate_market_regime aligned_ta (bars_from 0 spy_dip_closes)
                      (case thin_fetch ''VIX'' of Inl e \<Rightarrow> None | Inr v \<Rightarrow> Some v))
           + 0 = 40"
    by (simp add: v short_technicals spy_dip_regime)
  from concl s show ?thesis
    by (simp add: a b c d [unfolded iloc_1])
qed

section \<open>The calling layer\<close>

lemma ai_points_range: "0 \<le> ai_points s \<and> ai_points s \<le> 10"
  by (simp add: ai_points_def)

lemma adjusted_score_le_100: "adjusted_score sc s \<le> 100"
  by (simp add: adjusted_score_def)

lemma ai_points_lowest: "ai_points (- 10) = 0"
  by (simp add: ai_points_def round_half_even_def)

lemma ai_points_table:
  "map ai_points [- 10, - 9, - 8, - 7, - 6, - 5, - 4, - 3, - 2, - 1, 0, 1, 2, 3, 4, 5, 6, 7, 8, 9, 10]
     = [0, 0, 1, 2, 2, 2, 3, 4, 4, 4, 5, 6, 6, 6, 7, 8, 8, 8, 9, 10, 10]"
  by (simp add: ai_points_def round_half_even_def Let_def)

lemma analyze_verdict_agrees:
  "kill_switch \<or> 20 \<le> final_score \<Longrightarrow>
   analyze_verdict kill_switch final_score = get_verdict final_score kill_switch"
  by (auto simp: analyze_verdict_def get_verdict_def)

lemma analyze_verdict_differs:
  "\<not> kill_switch \<Longrightarrow> final_score < 20 \<Longrightarrow>
   analyze_verdict kill_switch final_score = ''STRONG SELL'' \<and>
   get_verdict final_score kill_switch = ''AVOID''"
  by (simp add: analyze_verdict_def get_verdict_def)

text \<open>
  C4 (verdict of the calling layer). The points added are
  \<open>round(((s + 10) / 20) * 10)\<close> within 0..10 and the adjusted score is capped at 100,
  and for a kill switch or an adjusted score of at least 20 the verdict is that of
  \<^verbatim>\<open>_get_verdict\<close> (\<open>analyze_verdict_agrees\<close>). Below 20 it is not: for the crashing
  ticker the engine scores 0 with verdict "AVOID", and with a sentiment score of -10 the
  calling layer answers "STRONG SELL".
\<close>

theorem calling_layer_verdict_diverges:
  "map_of (calculate_score crash_ta crash_fetch ''ACME'') ''score'' = Some (PInt 0) \<and>
   map_of (calculate_score crash_ta crash_fetch ''ACME'') ''verdict'' = Some (PStr ''AVOID'') \<and>
   map_of (calculate_score crash_ta crash_fetch ''ACME'') ''reason'' = None \<and>
   ai_points (- 10) = 0 \<and> adjusted_score 0 (- 10) = 0 \<and>
   analyze_ticker (calculate_score crash_ta crash_fetch ''ACME'') (- 10) = Some (0, ''STRONG SELL'') \<and>
   get_verdict (adjusted_score 0 (- 10)) False = ''AVOID''"
proof -
  have a: "crash_fetch ''ACME'' = Inr (bars_from 0 crash_closes)"
    by (simp add: crash_fetch_def)
  have b: "crash_fetch ''SPY'' = Inr (bars_from 0 spy_bear_closes)"
    by (simp add: crash_fetch_def)
  have v: "crash_fetch ''VIX'' = Inr (bars_from 0 fear_vix_closes)"
    by (simp add: crash_fetch_def)
  have p: "iloc (map close (bars_from 0 crash_closes)) 1 = Inr 84"
    by (simp add: close_bars_from series_last)
  have adj: "adjusted_score 0 (- 10) = 0"
    by (simp add: adjusted_score_def ai_points_lowest)
  show ?thesis
    unfolding calculate_score_normal [OF a b crash_vs_spy_bear p]
    by (simp add: v crash_technicals spy_bear_regime get_verdict_def analyze_ticker_def
        analyze_verdict_def adj ai_points_lowest)
qed

end
